theory Spec2Isabelle
  imports Main "HOL-Library.Sublist"
begin

section \<open>JavaScript values used by the command layer\<close>

text \<open>
  A JavaScript string is modelled by \<open>string\<close>: one \<open>char\<close> per code unit, for the
  code units below U+0100. \<open>length\<close> is the \<open>.length\<close> of the source.

  A thrown value is either an \<open>Error\<close> object, of which the code reads \<open>.message\<close>, or
  any other value, of which the code reads \<open>String(error)\<close>.
\<close>

datatype js_error = Error string | NonError string

text \<open>\<^verbatim>\<open>error instanceof Error ? error.message : String(error)\<close>\<close>

definition error_text :: "js_error \<Rightarrow> string" where
  "error_text e = (case e of Error m \<Rightarrow> m | NonError s \<Rightarrow> s)"

text \<open>
  \<open>String.prototype.trim\<close>: removes WhiteSpace and LineTerminator code units at both
  ends. Below U+0100 these are TAB, LF, VT, FF, CR, SP and NBSP.
\<close>

definition is_js_space :: "char \<Rightarrow> bool" where
  "is_js_space c = (c \<in> set [CHR 0x09, CHR 0x0A, CHR 0x0B, CHR 0x0C, CHR 0x0D, CHR 0x20, CHR 0xA0])"

definition trim :: "string \<Rightarrow> string" where
  "trim s = rev (dropWhile is_js_space (rev (dropWhile is_js_space s)))"

text \<open>\<open>Array.prototype.join\<close> on an array of strings.\<close>

fun join :: "string \<Rightarrow> string list \<Rightarrow> string" where
  "join sep [] = []"
| "join sep [x] = x"
| "join sep (x # y # ys) = x @ sep @ join sep (y # ys)"

text \<open>
  Digits of a natural number in a radix from 2 to 16, most significant first, with the
  lower-case letters \<open>Number.prototype.toString\<close> and \<open>BigInt.prototype.toString\<close> use.
\<close>

definition digit_char :: "nat \<Rightarrow> char" where
  "digit_char d = (''0123456789abcdef'' ! (d mod 16))"

function nat_to_radix :: "nat \<Rightarrow> nat \<Rightarrow> string" where
  "nat_to_radix b n =
     (if b < 2 \<or> n < b then [digit_char n]
      else nat_to_radix b (n div b) @ [digit_char (n mod b)])"
  by pat_completeness auto
termination
  by (relation "measure (\<lambda>(b, n). n)") auto

declare nat_to_radix.simps [simp del]

text \<open>
  \<open>toString(radix)\<close> of an integer-valued number or of a BigInt: a minus sign for a
  negative value, then the digits of the magnitude. In radix 10 this is \<open>String(n)\<close>
  and the \<open>${n}\<close> of a template literal, for an integer \<open>n\<close> of magnitude below \<open>10^21\<close>
  (process ids, ports, exit codes, block counts and timestamps are such numbers).
\<close>

definition toString_radix :: "nat \<Rightarrow> int \<Rightarrow> string" where
  "toString_radix b n =
     (if n < 0 then CHR ''-'' # nat_to_radix b (nat (- n)) else nat_to_radix b (nat n))"

definition String_int :: "int \<Rightarrow> string" where
  "String_int n = toString_radix 10 n"

text \<open>
  Reading a run of digits in a radix from 2 to 16: the value of a digit (either case of
  a letter), the value of a run from an accumulator, and the value of a run that is not
  empty. \<open>None\<close>: some character is not a digit of the radix.
\<close>

definition digit_val :: "char \<Rightarrow> nat option" where
  "digit_val c =
     (let k = (of_char c :: nat) in
      if 48 \<le> k \<and> k \<le> 57 then Some (k - 48)
      else if 97 \<le> k \<and> k \<le> 102 then Some (k - 87)
      else if 65 \<le> k \<and> k \<le> 70 then Some (k - 55)
      else None)"

fun parse_digits :: "nat \<Rightarrow> string \<Rightarrow> nat \<Rightarrow> nat option" where
  "parse_digits b [] acc = Some acc"
| "parse_digits b (c # cs) acc =
     (case digit_val c of
        None \<Rightarrow> None
      | Some d \<Rightarrow> if d < b then parse_digits b cs (acc * b + d) else None)"

definition parse_nat :: "nat \<Rightarrow> string \<Rightarrow> nat option" where
  "parse_nat b s = (if s = [] then None else parse_digits b s 0)"

section \<open>Process Runner: \<open>exec\<close>\<close>

text \<open>The interface \<open>CommandResult\<close> of \<open>utils/types.ts\<close>.\<close>

record CommandResult =
  success :: bool
  stdout :: string
  stderr :: string
  exitCode :: int

text \<open>
  What \<open>exec\<close> hands to \<open>Bun.spawn\<close>: the argument vector, the working directory and
  the two environment variables it sets on top of the inherited environment.
\<close>

record spawn_request =
  argv :: "string list"
  cwd :: string
  env_overrides :: "(string \<times> string) list"

text \<open>
  The part of the world \<open>exec\<close> awaits inside its \<open>try\<close> block: either something throws
  (the spawn, reading a stream, waiting for the exit), or both streams are read to
  their end and the process exits with a code.
\<close>

datatype proc_outcome = Throws js_error | Exits string string int

text \<open>
  The body of the \<open>try\<close> block. \<open>process_cwd\<close> is the outcome of \<open>process.cwd()\<close>, which
  is only called when \<open>cwd\<close> is absent or empty (\<open>cwd || process.cwd()\<close>) and which can
  throw. \<open>Inl\<close> is a throw out of the block.
\<close>

definition exec_try ::
  "(spawn_request \<Rightarrow> proc_outcome) \<Rightarrow> js_error + string \<Rightarrow> string list \<Rightarrow> string option
     \<Rightarrow> js_error + CommandResult" where
  "exec_try Bun_spawn process_cwd fullCommand cwd_arg =
     (case (case cwd_arg of
              Some d \<Rightarrow> if d \<noteq> [] then Inr d else process_cwd
            | None \<Rightarrow> process_cwd) of
        Inl e \<Rightarrow> Inl e
      | Inr dir \<Rightarrow>
          (case Bun_spawn \<lparr>argv = fullCommand, cwd = dir,
                  env_overrides = [(''NO_COLOR'', ''1''), (''FORCE_COLOR'', ''0'')]\<rparr> of
             Throws e \<Rightarrow> Inl e
           | Exits out err code \<Rightarrow>
               Inr \<lparr>success = (code = 0), stdout = trim out, stderr = trim err,
                    exitCode = code\<rparr>))"

text \<open>
  \<open>exec\<close>: the \<open>try\<close> block and its \<open>catch\<close>. The result type keeps a place (\<open>Inl\<close>) for
  an exception that reaches the caller.
\<close>

definition exec ::
  "(spawn_request \<Rightarrow> proc_outcome) \<Rightarrow> js_error + string \<Rightarrow> string \<Rightarrow> string list
     \<Rightarrow> string option \<Rightarrow> js_error + CommandResult" where
  "exec Bun_spawn process_cwd command args cwd_arg =
     (let fullCommand = command # args in
      case exec_try Bun_spawn process_cwd fullCommand cwd_arg of
        Inr r \<Rightarrow> Inr r
      | Inl e \<Rightarrow>
          Inr \<lparr>success = False, stdout = [], stderr = error_text e, exitCode = 1\<rparr>)"

section \<open>Argument Serializer: \<open>buildArgs\<close>\<close>

text \<open>
  The values of an option set: \<open>string | number | boolean | undefined\<close>. The type of
  numbers is a parameter, and so is their \<open>String(...)\<close>.
\<close>

datatype 'n opt_value = VUndefined | VBool bool | VNum 'n | VStr string

text \<open>\<open>String(value)\<close>.\<close>

definition String_value :: "('n \<Rightarrow> string) \<Rightarrow> 'n opt_value \<Rightarrow> string" where
  "String_value String_num v =
     (case v of
        VUndefined \<Rightarrow> ''undefined''
      | VBool b \<Rightarrow> (if b then ''true'' else ''false'')
      | VNum n \<Rightarrow> String_num n
      | VStr s \<Rightarrow> s)"

text \<open>
  An object with string keys, such as an option set, is the list of its properties in
  the order they were created (insertion order), no key twice.

  A key is an array index when it is the decimal numeral, without sign or leading
  zeros, of a number up to \<open>2^32 - 2\<close>; \<open>array_index\<close> gives that number.
\<close>

definition array_index :: "string \<Rightarrow> nat option" where
  "array_index key =
     (case parse_nat 10 key of
        None \<Rightarrow> None
      | Some n \<Rightarrow> if nat_to_radix 10 n = key \<and> n \<le> 4294967294 then Some n else None)"

text \<open>
  \<open>Object.entries\<close>: the properties whose key is an array index come first, in ascending
  order of the index; the others follow in insertion order.
\<close>

definition Object_entries :: "(string \<times> 'v) list \<Rightarrow> (string \<times> 'v) list" where
  "Object_entries props =
     sort_key (\<lambda>e. the (array_index (fst e))) (filter (\<lambda>e. array_index (fst e) \<noteq> None) props)
     @ filter (\<lambda>e. array_index (fst e) = None) props"

text \<open>The \<open>for\<close> loop of \<open>buildArgs\<close> over the entries.\<close>

fun buildArgs_loop :: "('n \<Rightarrow> string) \<Rightarrow> (string \<times> 'n opt_value) list \<Rightarrow> string list" where
  "buildArgs_loop String_num [] = []"
| "buildArgs_loop String_num ((key, v) # rest) =
     (if v = VUndefined \<or> v = VBool False then buildArgs_loop String_num rest
      else
        (let flag = (if length key = 1 then ''-'' @ key else ''--'' @ key) in
         (if v = VBool True then [flag] else [flag, String_value String_num v])
           @ buildArgs_loop String_num rest))"

definition buildArgs :: "('n \<Rightarrow> string) \<Rightarrow> (string \<times> 'n opt_value) list \<Rightarrow> string list" where
  "buildArgs String_num options = buildArgs_loop String_num (Object_entries options)"

section \<open>Output Formatter: \<open>formatOutput\<close>\<close>

definition formatOutput :: "CommandResult \<Rightarrow> string" where
  "formatOutput r =
     (if success r then (if stdout r \<noteq> [] then stdout r else ''Command completed successfully.'')
      else
        (let parts = [];
             parts = (if stderr r \<noteq> [] then parts @ [''Error: '' @ stderr r] else parts);
             parts = (if stdout r \<noteq> [] then parts @ [''Output: '' @ stdout r] else parts);
             parts = parts @ [''Exit code: '' @ String_int (exitCode r)]
         in join [CHR 0x0A] parts))"

section \<open>RPC Bridge: \<open>jsonRpcCall\<close>\<close>

text \<open>
  A parsed JSON document. Its numbers are the integer-valued ones. A JavaScript value
  that may also be \<open>undefined\<close> is a \<open>json option\<close>, \<open>None\<close> being \<open>undefined\<close>. The
  entries of \<open>JObj\<close> are the properties of the parsed object.
\<close>

datatype json =
    JNull
  | JBool bool
  | JNum int
  | JStr string
  | JArr "json list"
  | JObj "(string \<times> json) list"

text \<open>Truthiness, as \<open>if (data.error)\<close> tests it.\<close>

definition truthy :: "json option \<Rightarrow> bool" where
  "truthy v =
     (case v of
        None \<Rightarrow> False
      | Some JNull \<Rightarrow> False
      | Some (JBool b) \<Rightarrow> b
      | Some (JNum n) \<Rightarrow> n \<noteq> 0
      | Some (JStr s) \<Rightarrow> s \<noteq> []
      | Some (JArr xs) \<Rightarrow> True
      | Some (JObj kvs) \<Rightarrow> True)"

text \<open>
  \<open>String(v)\<close> of a parsed JSON value, which is also its rendering in a template
  literal. An object renders as \<open>[object Object]\<close> through the \<open>toString\<close> it inherits;
  an object with a member of its own named \<open>toString\<close> has no callable \<open>toString\<close> (a
  parsed member is never a function) and no \<open>valueOf\<close> that gives a primitive, so the
  conversion throws a TypeError, whose message is the runtime's own (the text below
  stands for it). An array joins the renderings of its elements with commas, \<open>null\<close>
  elements rendering as nothing, and throws when an element does.
\<close>

fun String_json :: "json \<Rightarrow> js_error + string"
  and String_elements :: "json list \<Rightarrow> js_error + string list" where
  "String_json JNull = Inr ''null''"
| "String_json (JBool b) = Inr (if b then ''true'' else ''false'')"
| "String_json (JNum n) = Inr (String_int n)"
| "String_json (JStr s) = Inr s"
| "String_json (JArr xs) =
     (case String_elements xs of Inl e \<Rightarrow> Inl e | Inr ss \<Rightarrow> Inr (join '','' ss))"
| "String_json (JObj kvs) =
     (if map_of kvs ''toString'' = None then Inr ''[object Object]''
      else Inl (Error ''Cannot convert object to primitive value''))"
| "String_elements [] = Inr []"
| "String_elements (x # xs) =
     (case (if x = JNull then Inr [] else String_json x) of
        Inl e \<Rightarrow> Inl e
      | Inr s \<Rightarrow> (case String_elements xs of Inl e \<Rightarrow> Inl e | Inr ss \<Rightarrow> Inr (s # ss)))"

definition String_js :: "json option \<Rightarrow> js_error + string" where
  "String_js v = (case v of None \<Rightarrow> Inr ''undefined'' | Some j \<Rightarrow> String_json j)"

text \<open>
  Reading the property \<open>name\<close> (one of \<open>error\<close>, \<open>result\<close>, \<open>message\<close>) of a parsed JSON
  value: on \<open>null\<close> the runtime throws a TypeError, whose message is the runtime's own
  (the text below stands for it; no statement depends on its wording); an object
  gives the property or \<open>undefined\<close>; booleans, numbers, strings and arrays have no
  property of these names.
\<close>

definition get_prop :: "json \<Rightarrow> string \<Rightarrow> js_error + json option" where
  "get_prop v name =
     (case v of
        JNull \<Rightarrow> Inl (Error (''null is not an object (evaluating '' @ name @ '')''))
      | JObj kvs \<Rightarrow> Inr (map_of kvs name)
      | JBool b \<Rightarrow> Inr None
      | JNum n \<Rightarrow> Inr None
      | JStr s \<Rightarrow> Inr None
      | JArr xs \<Rightarrow> Inr None)"

text \<open>
  What \<open>throw new Error(m)\<close> throws: an \<open>Error\<close> whose message is empty when \<open>m\<close> is
  \<open>undefined\<close> and \<open>String(m)\<close> otherwise, or what \<open>String(m)\<close> throws.
\<close>

definition new_Error :: "json option \<Rightarrow> js_error" where
  "new_Error m =
     (case m of
        None \<Rightarrow> Error []
      | Some j \<Rightarrow> (case String_json j of Inr s \<Rightarrow> Error s | Inl e \<Rightarrow> e))"

text \<open>The request \<open>fetch\<close> is called with; \<open>body\<close> is the value given to \<open>JSON.stringify\<close>.\<close>

record http_request =
  url :: string
  http_method :: string
  headers :: "(string \<times> string) list"
  body :: json

text \<open>
  \<open>jsonRpcCall\<close>. The world is \<open>fetch\<close> followed by \<open>response.json()\<close>: \<open>Inl\<close> when the
  request is rejected or the response body is not JSON, else the parsed body. The
  result is what the call returns (\<open>Inr\<close>) or throws (\<open>Inl\<close>), with the list of requests
  it has sent.
\<close>

definition jsonRpcCall ::
  "(http_request \<Rightarrow> js_error + json) \<Rightarrow> string \<Rightarrow> string \<Rightarrow> json list
     \<Rightarrow> (js_error + json option) \<times> http_request list" where
  "jsonRpcCall fetch rpcUrl method params =
     (let request =
            \<lparr>url = rpcUrl, http_method = ''POST'',
             headers = [(''Content-Type'', ''application/json'')],
             body = JObj [(''jsonrpc'', JStr ''2.0''), (''id'', JNum 1),
                          (''method'', JStr method), (''params'', JArr params)]\<rparr>
      in
      ((case fetch request of
         Inl e \<Rightarrow> Inl e
       | Inr data \<Rightarrow>
           (case get_prop data ''error'' of
              Inl e \<Rightarrow> Inl e
            | Inr err \<Rightarrow>
                if truthy err then
                  (case get_prop (the err) ''message'' of
                     Inl e \<Rightarrow> Inl e
                   | Inr m \<Rightarrow> Inl (new_Error m))
                else get_prop data ''result'')),
       [request]))"

section \<open>Node Registry and the start, stop and status handlers\<close>

text \<open>The interface \<open>AnvilInstance\<close> of \<open>utils/types.ts\<close>; \<open>forkUrl\<close> is optional.\<close>

record AnvilInstance =
  port :: int
  pid :: int
  forkUrl :: "string option"

text \<open>
  \<open>anvilInstances\<close>, a JavaScript \<open>Map\<close>: its entries in insertion order. \<open>set\<close> replaces
  the value of a key that is present, in place, and appends a new key; \<open>delete\<close> removes
  the key.
\<close>

type_synonym registry = "(int \<times> AnvilInstance) list"

fun Map_get :: "registry \<Rightarrow> int \<Rightarrow> AnvilInstance option" where
  "Map_get [] k = None"
| "Map_get ((k', v) # m) k = (if k' = k then Some v else Map_get m k)"

definition Map_has :: "registry \<Rightarrow> int \<Rightarrow> bool" where
  "Map_has m k = (Map_get m k \<noteq> None)"

fun Map_set :: "registry \<Rightarrow> int \<Rightarrow> AnvilInstance \<Rightarrow> registry" where
  "Map_set [] k v = [(k, v)]"
| "Map_set ((k', v') # m) k v = (if k' = k then (k, v) # m else (k', v') # Map_set m k v)"

fun Map_delete :: "registry \<Rightarrow> int \<Rightarrow> registry" where
  "Map_delete [] k = []"
| "Map_delete ((k', v') # m) k = (if k' = k then Map_delete m k else (k', v') # Map_delete m k)"

text \<open>
  The world of one handler call: \<open>Bun.spawn\<close> throws or gives a child process, of which
  the model keeps the process id; \<open>fetch\<close> as above; \<open>process.kill(pid, signal)\<close>
  returns (\<open>None\<close>) or throws.
\<close>

record world =
  world_spawn :: "string list \<Rightarrow> js_error + int"
  fetch_json :: "http_request \<Rightarrow> js_error + json"
  process_kill :: "int \<Rightarrow> string \<Rightarrow> js_error option"

text \<open>What a handler does to the world, in order.\<close>

datatype effect =
    Spawn "string list"
  | Sleep nat
  | Fetch http_request
  | ChildKill int
  | ProcessKill int string

text \<open>
  A handler returns the text of its \<open>textContent\<close> (\<open>Inr\<close>) or throws (\<open>Inl\<close>); the model
  adds the registry after the call and the effects of the call.
\<close>

type_synonym handler_result = "(js_error + string) \<times> registry \<times> effect list"

text \<open>
  \<open>anvil_start\<close>. \<open>port_arg\<close> is the optional \<open>port\<close>, \<open>options\<close> the other named
  parameters in their order; \<open>options["fork-url"]\<close> is a string or absent. The \<open>try\<close>
  block holds the probe, the \<open>set\<close> on the registry and then the template literal with
  \<open>${result}\<close>: when that rendering throws, the \<open>catch\<close> runs after the \<open>set\<close>.
\<close>

definition anvil_start ::
  "world \<Rightarrow> registry \<Rightarrow> int option \<Rightarrow> (string \<times> int opt_value) list \<Rightarrow> handler_result" where
  "anvil_start w anvilInstances port_arg options =
     (let p = (case port_arg of None \<Rightarrow> 8545 | Some q \<Rightarrow> q) in
      if Map_has anvilInstances p then
        (Inr (''Anvil is already running on port '' @ String_int p), anvilInstances, [])
      else
        (let args = buildArgs String_int ((''port'', VNum p) # options) in
         case world_spawn w (''anvil'' # args) of
           Inl e \<Rightarrow> (Inl e, anvilInstances, [Spawn (''anvil'' # args)])
         | Inr proc_pid \<Rightarrow>
             (case jsonRpcCall (fetch_json w) (''http://127.0.0.1:'' @ String_int p) ''eth_chainId'' [] of
                (Inr result, reqs) \<Rightarrow>
                  (let registered =
                         Map_set anvilInstances p
                           \<lparr>port = p, pid = proc_pid,
                            forkUrl = (case map_of options ''fork-url'' of
                                         Some (VStr u) \<Rightarrow> Some u
                                       | _ \<Rightarrow> None)\<rparr>
                   in
                   case String_js result of
                     Inr chain \<Rightarrow>
                       (Inr (''Anvil started successfully on port '' @ String_int p
                             @ [CHR 0x0A] @ ''PID: '' @ String_int proc_pid
                             @ [CHR 0x0A] @ ''Chain ID: '' @ chain),
                        registered,
                        [Spawn (''anvil'' # args), Sleep 1000] @ map Fetch reqs)
                   | Inl e \<Rightarrow>
                       (Inr (''Failed to start Anvil on port '' @ String_int p
                             @ ''. Check if the port is available.''),
                        registered,
                        [Spawn (''anvil'' # args), Sleep 1000] @ map Fetch reqs
                          @ [ChildKill proc_pid]))
              | (Inl e, reqs) \<Rightarrow>
                  (Inr (''Failed to start Anvil on port '' @ String_int p
                        @ ''. Check if the port is available.''),
                   anvilInstances,
                   [Spawn (''anvil'' # args), Sleep 1000] @ map Fetch reqs
                     @ [ChildKill proc_pid]))))"

definition anvil_stop :: "world \<Rightarrow> registry \<Rightarrow> int option \<Rightarrow> handler_result" where
  "anvil_stop w anvilInstances port_arg =
     (let p = (case port_arg of None \<Rightarrow> 8545 | Some q \<Rightarrow> q) in
      case Map_get anvilInstances p of
        None \<Rightarrow> (Inr (''No Anvil instance tracked on port '' @ String_int p), anvilInstances, [])
      | Some instance \<Rightarrow>
          (case process_kill w (pid instance) ''SIGTERM'' of
             None \<Rightarrow>
               (Inr (''Anvil stopped on port '' @ String_int p),
                Map_delete anvilInstances p,
                [ProcessKill (pid instance) ''SIGTERM''])
           | Some e \<Rightarrow>
               (Inr (''Error stopping Anvil: '' @ error_text e),
                Map_delete anvilInstances p,
                [ProcessKill (pid instance) ''SIGTERM''])))"

text \<open>
  What the three \<open>try\<close> blocks of \<open>anvil_status\<close> start with: the probe, and the rendering
  \<open>${chainId}\<close> of its result in the template literal of the block. Either can throw, into
  the same \<open>catch\<close>; nothing else in the blocks can. The result is the rendered chain id
  or the throw, with the requests sent.
\<close>

definition try_chainId :: "world \<Rightarrow> int \<Rightarrow> (js_error + string) \<times> http_request list" where
  "try_chainId w p =
     (case jsonRpcCall (fetch_json w) (''http://127.0.0.1:'' @ String_int p) ''eth_chainId'' [] of
        (Inr chainId, reqs) \<Rightarrow> (String_js chainId, reqs)
      | (Inl e, reqs) \<Rightarrow> (Inl e, reqs))"

text \<open>
  The loop of \<open>anvil_status\<close> over the tracked instances. Deleting the entry a \<open>Map\<close>
  iteration is at does not disturb the iteration, so the loop visits the entries the
  map had when it started, in order, while the deletions act on the map itself.
\<close>

fun status_loop ::
  "world \<Rightarrow> (int \<times> AnvilInstance) list \<Rightarrow> registry \<Rightarrow> string list \<Rightarrow> effect list
     \<Rightarrow> registry \<times> string list \<times> effect list" where
  "status_loop w [] anvilInstances statuses effs = (anvilInstances, statuses, effs)"
| "status_loop w ((p, instance) # rest) anvilInstances statuses effs =
     (case try_chainId w p of
        (Inr chainId, reqs) \<Rightarrow>
          status_loop w rest anvilInstances
            (statuses @ [''Port '' @ String_int p @ '': Running (PID: ''
                         @ String_int (pid instance) @ '', Chain ID: ''
                         @ chainId @ '')''])
            (effs @ map Fetch reqs)
      | (Inl e, reqs) \<Rightarrow>
          status_loop w rest (Map_delete anvilInstances p)
            (statuses @ [''Port '' @ String_int p @ '': Not responding (removed)''])
            (effs @ map Fetch reqs))"

text \<open>
  \<open>anvil_status\<close>. \<open>if (port)\<close> holds for a port that is given and not zero;
  \<open>instance.forkUrl || "none"\<close> is \<open>none\<close> for an absent or empty fork URL.
\<close>

definition anvil_status :: "world \<Rightarrow> registry \<Rightarrow> int option \<Rightarrow> handler_result" where
  "anvil_status w anvilInstances port_arg =
     (if port_arg \<noteq> None \<and> port_arg \<noteq> Some 0 then
        (let p = the port_arg in
         case Map_get anvilInstances p of
           None \<Rightarrow>
             (case try_chainId w p of
                (Inr chainId, reqs) \<Rightarrow>
                  (Inr (''Anvil running on port '' @ String_int p @ '' (untracked)''
                        @ [CHR 0x0A] @ ''Chain ID: '' @ chainId),
                   anvilInstances, map Fetch reqs)
              | (Inl e, reqs) \<Rightarrow>
                  (Inr (''No Anvil instance running on port '' @ String_int p),
                   anvilInstances, map Fetch reqs))
         | Some instance \<Rightarrow>
             (case try_chainId w p of
                (Inr chainId, reqs) \<Rightarrow>
                  (Inr (''Anvil running on port '' @ String_int p
                        @ [CHR 0x0A] @ ''PID: '' @ String_int (pid instance)
                        @ [CHR 0x0A] @ ''Chain ID: '' @ chainId
                        @ [CHR 0x0A] @ ''Fork URL: ''
                        @ (case forkUrl instance of
                             Some u \<Rightarrow> if u \<noteq> [] then u else ''none''
                           | None \<Rightarrow> ''none'')),
                   anvilInstances, map Fetch reqs)
              | (Inl e, reqs) \<Rightarrow>
                  (Inr (''Anvil on port '' @ String_int p
                        @ '' is not responding (removed from tracking)''),
                   Map_delete anvilInstances p, map Fetch reqs)))
      else if length anvilInstances = 0 then
        (Inr ''No tracked Anvil instances'', anvilInstances, [])
      else
        (case status_loop w anvilInstances anvilInstances [] [] of
           (anvilInstances', statuses, effs) \<Rightarrow>
             (Inr (join [CHR 0x0A] statuses), anvilInstances', effs)))"

text \<open>
  The three registry operations as requests to the server, and the registry after a
  sequence of them, each handled to its end in its own world. A handler that throws
  leaves the registry as it has it at the throw.
\<close>

datatype request =
    AnvilStart "int option" "(string \<times> int opt_value) list"
  | AnvilStop "int option"
  | AnvilStatus "int option"

fun handle :: "world \<Rightarrow> registry \<Rightarrow> request \<Rightarrow> handler_result" where
  "handle w m (AnvilStart port_arg options) = anvil_start w m port_arg options"
| "handle w m (AnvilStop port_arg) = anvil_stop w m port_arg"
| "handle w m (AnvilStatus port_arg) = anvil_status w m port_arg"

fun run :: "registry \<Rightarrow> (world \<times> request) list \<Rightarrow> registry" where
  "run m [] = m"
| "run m ((w, r) # rs) = run (fst (snd (handle w m r))) rs"

section \<open>Node control over the RPC Bridge\<close>

text \<open>
  \<open>getRpcUrl\<close> of the node tools; \<open>context_rpcUrl\<close> is \<open>context.rpcUrl\<close>. A string is
  truthy when it is present and not empty, a port when it is present and not zero.
\<close>

definition getRpcUrl :: "string option \<Rightarrow> string option \<Rightarrow> int option \<Rightarrow> string" where
  "getRpcUrl rpcUrl context_rpcUrl port_arg =
     (if rpcUrl \<noteq> None \<and> rpcUrl \<noteq> Some [] then the rpcUrl
      else if port_arg \<noteq> None \<and> port_arg \<noteq> Some 0 then ''http://127.0.0.1:'' @ String_int (the port_arg)
      else if context_rpcUrl \<noteq> None \<and> context_rpcUrl \<noteq> Some [] then the context_rpcUrl
      else ''http://127.0.0.1:8545'')"

text \<open>
  The node-control handlers catch what \<open>jsonRpcCall\<close> throws, so each returns a text;
  the model adds the requests sent.
\<close>

definition anvil_mine ::
  "(http_request \<Rightarrow> js_error + json) \<Rightarrow> string option \<Rightarrow> int option \<Rightarrow> int option
     \<Rightarrow> string option \<Rightarrow> string \<times> http_request list" where
  "anvil_mine fetch context_rpcUrl blocks_arg interval rpcUrl =
     (let blocks = (case blocks_arg of None \<Rightarrow> 1 | Some b \<Rightarrow> b);
          target = getRpcUrl rpcUrl context_rpcUrl None
      in
      case (if interval \<noteq> None \<and> interval \<noteq> Some 0 then
              jsonRpcCall fetch target ''anvil_mine''
                [JStr (''0x'' @ toString_radix 16 blocks),
                 JStr (''0x'' @ toString_radix 16 (the interval))]
            else
              jsonRpcCall fetch target ''anvil_mine''
                [JStr (''0x'' @ toString_radix 16 blocks)]) of
        (Inr r, reqs) \<Rightarrow> (''Mined '' @ String_int blocks @ '' block(s)'', reqs)
      | (Inl e, reqs) \<Rightarrow> (''Error mining blocks: '' @ error_text e, reqs))"

definition anvil_setNextBlockTimestamp ::
  "(http_request \<Rightarrow> js_error + json) \<Rightarrow> string option \<Rightarrow> int \<Rightarrow> string option
     \<Rightarrow> string \<times> http_request list" where
  "anvil_setNextBlockTimestamp fetch context_rpcUrl timestamp rpcUrl =
     (let target = getRpcUrl rpcUrl context_rpcUrl None in
      case jsonRpcCall fetch target ''evm_setNextBlockTimestamp'' [JNum timestamp] of
        (Inr r, reqs) \<Rightarrow> (''Next block timestamp set to '' @ String_int timestamp, reqs)
      | (Inl e, reqs) \<Rightarrow> (''Error: '' @ error_text e, reqs))"

definition anvil_increaseTime ::
  "(http_request \<Rightarrow> js_error + json) \<Rightarrow> string option \<Rightarrow> int \<Rightarrow> string option
     \<Rightarrow> string \<times> http_request list" where
  "anvil_increaseTime fetch context_rpcUrl seconds rpcUrl =
     (let target = getRpcUrl rpcUrl context_rpcUrl None in
      case jsonRpcCall fetch target ''evm_increaseTime'' [JNum seconds] of
        (Inr r, reqs) \<Rightarrow> (''Time increased by '' @ String_int seconds @ '' seconds'', reqs)
      | (Inl e, reqs) \<Rightarrow> (''Error: '' @ error_text e, reqs))"

text \<open>
  \<open>BigInt(string)\<close>: the string is trimmed; the empty string is zero; a literal is a
  run of decimal digits with an optional sign, or \<open>0x\<close>, \<open>0o\<close>, \<open>0b\<close> (either case) and
  a run of digits of that radix; anything else throws a SyntaxError, whose message is
  the runtime's own (the text below stands for it).
\<close>

definition BigInt :: "string \<Rightarrow> js_error + int" where
  "BigInt s =
     (let t = trim s in
      case (if t = [] then Some 0
            else if take 2 t = ''0x'' \<or> take 2 t = ''0X'' then
              map_option int (parse_nat 16 (drop 2 t))
            else if take 2 t = ''0o'' \<or> take 2 t = ''0O'' then
              map_option int (parse_nat 8 (drop 2 t))
            else if take 2 t = ''0b'' \<or> take 2 t = ''0B'' then
              map_option int (parse_nat 2 (drop 2 t))
            else if take 1 t = ''-'' then map_option (\<lambda>n. - int n) (parse_nat 10 (drop 1 t))
            else if take 1 t = ''+'' then map_option int (parse_nat 10 (drop 1 t))
            else map_option int (parse_nat 10 t)) of
        Some n \<Rightarrow> Inr n
      | None \<Rightarrow> Inl (Error ''Failed to parse String to BigInt''))"

definition anvil_setBalance ::
  "(http_request \<Rightarrow> js_error + json) \<Rightarrow> string option \<Rightarrow> string \<Rightarrow> string \<Rightarrow> string option
     \<Rightarrow> string \<times> http_request list" where
  "anvil_setBalance fetch context_rpcUrl address balance rpcUrl =
     (let target = getRpcUrl rpcUrl context_rpcUrl None in
      case (if take 2 balance = ''0x'' then Inr balance
            else (case BigInt balance of
                    Inl e \<Rightarrow> Inl e
                  | Inr n \<Rightarrow> Inr (''0x'' @ toString_radix 16 n))) of
        Inl e \<Rightarrow> (''Error setting balance: '' @ error_text e, [])
      | Inr hexBalance \<Rightarrow>
          (case jsonRpcCall fetch target ''anvil_setBalance'' [JStr address, JStr hexBalance] of
             (Inr r, reqs) \<Rightarrow>
               (''Set balance of '' @ address @ '' to '' @ balance @ '' wei'', reqs)
           | (Inl e, reqs) \<Rightarrow> (''Error setting balance: '' @ error_text e, reqs)))"

text \<open>The parameter list of a request: the \<open>params\<close> member of its body.\<close>

definition params_of :: "http_request \<Rightarrow> json option" where
  "params_of r = (case body r of JObj kvs \<Rightarrow> map_of kvs ''params'' | _ \<Rightarrow> None)"

section \<open>The REPL handlers \<open>chisel_eval\<close> and \<open>chisel_run\<close>\<close>











section \<open>The other spawns of the server\<close>







text \<open>
  The calls of \<open>Bun.spawn\<close> in the sources are five: the one in \<open>exec\<close>, which every tool
  and resource other than the four below goes through, with the program name \<open>forge\<close>,
  \<open>cast\<close>, \<open>anvil\<close> or \<open>chisel\<close> and a list of arguments; and those in \<open>anvil_start\<close>,
  \<open>listDirectory\<close>, \<open>chisel_eval\<close> and \<open>chisel_run\<close>. \<open>site_argv\<close> is the argument vector
  each gives to \<open>Bun.spawn\<close>.
\<close>

datatype program = Forge | Cast | Anvil | Chisel




section \<open>Notions used to state the properties\<close>

text \<open>
  The liveness probe of a port: the outcome of
  \<open>jsonRpcCall(`http://127.0.0.1:${port}`, "eth_chainId")\<close> in a world.
\<close>

definition probe :: "world \<Rightarrow> int \<Rightarrow> js_error + json option" where
  "probe w p =
     fst (jsonRpcCall (fetch_json w) (''http://127.0.0.1:'' @ String_int p) ''eth_chainId'' [])"

text \<open>The request of that probe.\<close>

definition probe_request :: "int \<Rightarrow> http_request" where
  "probe_request p =
     \<lparr>url = ''http://127.0.0.1:'' @ String_int p, http_method = ''POST'',
      headers = [(''Content-Type'', ''application/json'')],
      body = JObj [(''jsonrpc'', JStr ''2.0''), (''id'', JNum 1),
                   (''method'', JStr ''eth_chainId''), (''params'', JArr [])]\<rparr>"

text \<open>
  At most one tracked instance per port: no port is the key of two entries, and every
  entry is stored under the port its instance names.
\<close>

definition one_per_port :: "registry \<Rightarrow> bool" where
  "one_per_port m = (distinct (map fst m) \<and> (\<forall>(k, i) \<in> set m. port i = k))"

text \<open>
  Worlds for running the handlers on concrete inputs. Nodes that answer every request:
  with the result \<open>0x1\<close>; with the error \<open>boom\<close>; with both a result and that error; with
  a result and a \<open>null\<close> error; with an error that has no message; with a result that is
  an object with a member \<open>toString\<close>. A node that answers on every port but 8545. A
  process that prints its argument vector and exits with 0.
\<close>

definition node_ok :: "http_request \<Rightarrow> js_error + json" where
  "node_ok r = Inr (JObj [(''jsonrpc'', JStr ''2.0''), (''id'', JNum 1), (''result'', JStr ''0x1'')])"

definition node_error :: "http_request \<Rightarrow> js_error + json" where
  "node_error r =
     Inr (JObj [(''jsonrpc'', JStr ''2.0''), (''id'', JNum 1),
                (''error'', JObj [(''code'', JNum (- 32601)), (''message'', JStr ''boom'')])])"




definition node_odd_result :: "http_request \<Rightarrow> js_error + json" where
  "node_odd_result r =
     Inr (JObj [(''jsonrpc'', JStr ''2.0''), (''id'', JNum 1),
                (''result'', JObj [(''toString'', JNum 1)])])"

definition node_not_8545 :: "http_request \<Rightarrow> js_error + json" where
  "node_not_8545 r =
     (if url r = ''http://127.0.0.1:8545'' then Inl (Error ''ECONNREFUSED'') else node_ok r)"


section \<open>Properties of the Process Runner\<close>

text \<open>
  Claim C1. Whatever the program name, the argument vector, the optional working
  directory and the behaviour of the world, \<open>exec\<close> returns a CommandResult and does not
  raise; the \<open>success\<close> field of the result equals \<open>exitCode = 0\<close>; and whenever something
  is thrown inside the \<open>try\<close> block, in particular when the spawn fails, the result is
  \<open>success = false\<close>, \<open>exitCode = 1\<close>, empty \<open>stdout\<close>, and \<open>stderr\<close> the description of the
  failure.
\<close>

theorem exec_never_raises:
  "(\<exists>r. exec Bun_spawn process_cwd command args cwd_arg = Inr r
          \<and> success r = (exitCode r = 0))
   \<and> (\<forall>e. exec_try Bun_spawn process_cwd (command # args) cwd_arg = Inl e \<longrightarrow>
         exec Bun_spawn process_cwd command args cwd_arg =
           Inr \<lparr>success = False, stdout = [], stderr = error_text e, exitCode = 1\<rparr>)
   \<and> (\<forall>e d. d \<noteq> [] \<and>
           Bun_spawn \<lparr>argv = command # args, cwd = d,
              env_overrides = [(''NO_COLOR'', ''1''), (''FORCE_COLOR'', ''0'')]\<rparr> = Throws e \<longrightarrow>
         exec Bun_spawn process_cwd command args (Some d) =
           Inr \<lparr>success = False, stdout = [], stderr = error_text e, exitCode = 1\<rparr>)
   \<and> (\<forall>e d. process_cwd = Inr d \<and>
           Bun_spawn \<lparr>argv = command # args, cwd = d,
              env_overrides = [(''NO_COLOR'', ''1''), (''FORCE_COLOR'', ''0'')]\<rparr> = Throws e \<longrightarrow>
         exec Bun_spawn process_cwd command args None =
           Inr \<lparr>success = False, stdout = [], stderr = error_text e, exitCode = 1\<rparr>)"
proof -
  have total: "\<exists>r. exec Bun_spawn process_cwd command args cwd_arg = Inr r
          \<and> success r = (exitCode r = 0)"
    by (cases "exec_try Bun_spawn process_cwd (command # args) cwd_arg")
       (auto simp: exec_def exec_try_def split: sum.splits option.splits proc_outcome.splits if_splits)
  have caught: "\<And>e c. exec_try Bun_spawn process_cwd (command # args) c = Inl e \<Longrightarrow>
         exec Bun_spawn process_cwd command args c =
           Inr \<lparr>success = False, stdout = [], stderr = error_text e, exitCode = 1\<rparr>"
    by (simp add: exec_def)
  have spawn_some: "\<And>e d. d \<noteq> [] \<Longrightarrow>
           Bun_spawn \<lparr>argv = command # args, cwd = d,
              env_overrides = [(''NO_COLOR'', ''1''), (''FORCE_COLOR'', ''0'')]\<rparr> = Throws e \<Longrightarrow>
           exec_try Bun_spawn process_cwd (command # args) (Some d) = Inl e"
    by (simp add: exec_try_def)
  have spawn_none: "\<And>e d. process_cwd = Inr d \<Longrightarrow>
           Bun_spawn \<lparr>argv = command # args, cwd = d,
              env_overrides = [(''NO_COLOR'', ''1''), (''FORCE_COLOR'', ''0'')]\<rparr> = Throws e \<Longrightarrow>
           exec_try Bun_spawn process_cwd (command # args) None = Inl e"
    by (simp add: exec_try_def)
  show ?thesis
    using total caught spawn_some spawn_none by blast
qed

text \<open>A failing spawn for a command run in the process directory, and a run that exits with 0.\<close>

theorem exec_never_raises_witness:
  "exec (\<lambda>req. Throws (Error ''ENOENT: no such file or directory'')) (Inr ''/work'')
        ''forge'' [''build''] None =
     Inr \<lparr>success = False, stdout = [], stderr = ''ENOENT: no such file or directory'',
          exitCode = 1\<rparr>
   \<and> exec (\<lambda>req. Exits ''ok\<newline>'' [] 0) (Inr ''/work'') ''forge'' [''build''] (Some ''/p'') =
     Inr \<lparr>success = True, stdout = ''ok'', stderr = [], exitCode = 0\<rparr>"
proof -
  have a: "exec (\<lambda>req. Throws (Error ''ENOENT: no such file or directory'')) (Inr ''/work'')
        ''forge'' [''build''] None =
     Inr \<lparr>success = False, stdout = [], stderr = ''ENOENT: no such file or directory'',
          exitCode = 1\<rparr>"
    using exec_never_raises [of "\<lambda>req. Throws (Error ''ENOENT: no such file or directory'')"
        "Inr ''/work''" "''forge''" "[''build'']" None]
    by (simp add: error_text_def)
  have b: "exec (\<lambda>req. Exits ''ok\<newline>'' [] 0) (Inr ''/work'') ''forge'' [''build''] (Some ''/p'') =
     Inr \<lparr>success = True, stdout = ''ok'', stderr = [], exitCode = 0\<rparr>"
    by (simp add: exec_def exec_try_def trim_def is_js_space_def)
  show ?thesis using a b by simp
qed

section \<open>Digits and numerals\<close>

lemma digit_val_digit_char: "d < 16 \<Longrightarrow> digit_val (digit_char d) = Some d"
proof -
  assume "d < 16"
  then have "d \<in> {0, 1, 2, 3, 4, 5, 6, 7, 8, 9, 10, 11, 12, 13, 14, 15}" by simp arith
  then show ?thesis
    by (auto simp: digit_val_def digit_char_def)
qed

lemma parse_digits_append:
  "parse_digits b (xs @ ys) acc =
     (case parse_digits b xs acc of None \<Rightarrow> None | Some a \<Rightarrow> parse_digits b ys a)"
  by (induction xs arbitrary: acc) (auto split: option.splits)

lemma parse_digits_nat_to_radix:
  "2 \<le> b \<Longrightarrow> b \<le> 16 \<Longrightarrow> parse_digits b (nat_to_radix b n) 0 = Some n"
proof (induction b n rule: nat_to_radix.induct)
  case (1 b n)
  show ?case
  proof (cases "n < b")
    case True
    then have "nat_to_radix b n = [digit_char n]" by (simp add: nat_to_radix.simps)
    moreover have "digit_val (digit_char n) = Some n"
      using True "1.prems" by (intro digit_val_digit_char) simp
    ultimately show ?thesis using True by simp
  next
    case False
    then have unfold: "nat_to_radix b n = nat_to_radix b (n div b) @ [digit_char (n mod b)]"
      using "1.prems" by (subst nat_to_radix.simps) simp
    have IH: "parse_digits b (nat_to_radix b (n div b)) 0 = Some (n div b)"
      using "1.IH" False "1.prems" by simp
    have small: "n mod b < b" using "1.prems" by simp
    then have "n mod b < 16" using "1.prems" by linarith
    then have dv: "digit_val (digit_char (n mod b)) = Some (n mod b)"
      by (rule digit_val_digit_char)
    show ?thesis
      using small by (simp add: unfold parse_digits_append IH dv)
  qed
qed

lemma nat_to_radix_not_Nil: "nat_to_radix b n \<noteq> []"
  by (subst nat_to_radix.simps) simp

lemma hex_roundtrip: "0 \<le> n \<Longrightarrow> parse_nat 16 (toString_radix 16 n) = Some (nat n)"
  by (simp add: parse_nat_def toString_radix_def nat_to_radix_not_Nil parse_digits_nat_to_radix)

lemma parse_nat_nat_to_radix: "parse_nat 10 (nat_to_radix 10 n) = Some n"
  by (simp add: parse_nat_def nat_to_radix_not_Nil parse_digits_nat_to_radix)

lemma array_index_iff:
  "array_index key = Some i \<longleftrightarrow> key = nat_to_radix 10 i \<and> i \<le> 4294967294"
proof
  assume "array_index key = Some i"
  then show "key = nat_to_radix 10 i \<and> i \<le> 4294967294"
    by (auto simp: array_index_def split: option.splits if_splits)
next
  assume "key = nat_to_radix 10 i \<and> i \<le> 4294967294"
  then show "array_index key = Some i"
    by (simp add: array_index_def parse_nat_nat_to_radix)
qed

lemma buildArgs_loop_append:
  "buildArgs_loop S (as @ bs) = buildArgs_loop S as @ buildArgs_loop S bs"
  by (induction as) (auto simp: Let_def)

lemma buildArgs_loop_concat:
  "buildArgs_loop S es = concat (map (\<lambda>e. buildArgs_loop S [e]) es)"
proof (induction es)
  case Nil
  then show ?case by simp
next
  case (Cons e es)
  have "buildArgs_loop S (e # es) = buildArgs_loop S [e] @ buildArgs_loop S es"
    using buildArgs_loop_append [of S "[e]" es] by simp
  with Cons show ?case by simp
qed

lemma Object_entries_single: "Object_entries [e] = [e]"
  by (simp add: Object_entries_def)

lemma buildArgs_single: "buildArgs S [e] = buildArgs_loop S [e]"
  by (simp add: buildArgs_def Object_entries_single)

lemma Object_entries_no_index:
  "\<forall>e \<in> set props. array_index (fst e) = None \<Longrightarrow> Object_entries props = props"
  by (simp add: Object_entries_def)

lemma Object_entries_others:
  "filter (\<lambda>e. array_index (fst e) = None) (Object_entries props)
     = filter (\<lambda>e. array_index (fst e) = None) props"
  by (simp add: Object_entries_def filter_sort del: not_None_eq cong: conj_cong)

lemma Object_entries_indices:
  "filter (\<lambda>e. array_index (fst e) \<noteq> None) (Object_entries props)
     = sort_key (\<lambda>e. the (array_index (fst e))) (filter (\<lambda>e. array_index (fst e) \<noteq> None) props)"
proof -
  have "filter (\<lambda>e. array_index (fst e) \<noteq> None)
          (sort_key (\<lambda>e. the (array_index (fst e))) (filter (\<lambda>e. array_index (fst e) \<noteq> None) props))
        = sort_key (\<lambda>e. the (array_index (fst e))) (filter (\<lambda>e. array_index (fst e) \<noteq> None) props)"
    by (simp add: filter_sort del: not_None_eq)
  then show ?thesis
    by (simp add: Object_entries_def del: not_None_eq cong: conj_cong)
qed

lemma Object_entries_split:
  "Object_entries props =
     filter (\<lambda>e. array_index (fst e) \<noteq> None) (Object_entries props)
     @ filter (\<lambda>e. array_index (fst e) = None) (Object_entries props)"
  by (simp only: Object_entries_indices Object_entries_others) (simp add: Object_entries_def)

lemma Object_entries_sorted:
  "sorted (map (\<lambda>e. the (array_index (fst e)))
     (filter (\<lambda>e. array_index (fst e) \<noteq> None) (Object_entries props)))"
  by (simp only: Object_entries_indices sorted_sort_key)

lemma Object_entries_same:
  "set (Object_entries props) = set props \<and> length (Object_entries props) = length props"
proof -
  have "length (filter (\<lambda>e. array_index (fst e) \<noteq> None) props)
        + length (filter (\<lambda>e. array_index (fst e) = None) props) = length props"
    using sum_length_filter_compl [of "\<lambda>e. array_index (fst e) \<noteq> None" props] by simp
  then show ?thesis by (auto simp: Object_entries_def)
qed

section \<open>Properties of the Argument Serializer\<close>

text \<open>
  Claim C2, as the code has it. The tokens of an option set are the tokens of its
  entries, one entry after the other, in the order of \<open>Object.entries\<close>: that list holds
  the same entries as the option set; the entries whose key is an array index (the
  decimal numeral of a number up to \<open>2^32 - 2\<close>) come first, in ascending order of the
  index, and the other entries follow in insertion order. For an option set without such
  a key the tokens are in insertion order. An entry whose value is \<open>undefined\<close> or
  \<open>false\<close> gives no token; \<open>true\<close> gives the flag alone; any other value (a number, zero
  included, or a string, the empty one included) gives the flag and then
  \<open>String(value)\<close>, which is the string itself for a string. The flag is \<open>-key\<close> for a
  key of length 1 and \<open>--key\<close> for every other key.
\<close>

theorem buildArgs_tokens:
  "buildArgs S options = concat (map (\<lambda>e. buildArgs S [e]) (Object_entries options))
   \<and> set (Object_entries options) = set options
   \<and> length (Object_entries options) = length options
   \<and> Object_entries options =
        filter (\<lambda>e. array_index (fst e) \<noteq> None) (Object_entries options)
        @ filter (\<lambda>e. array_index (fst e) = None) (Object_entries options)
   \<and> sorted (map (\<lambda>e. the (array_index (fst e)))
        (filter (\<lambda>e. array_index (fst e) \<noteq> None) (Object_entries options)))
   \<and> filter (\<lambda>e. array_index (fst e) = None) (Object_entries options)
        = filter (\<lambda>e. array_index (fst e) = None) options
   \<and> (array_index key = Some i \<longleftrightarrow> key = nat_to_radix 10 i \<and> i \<le> 4294967294)
   \<and> ((\<forall>e \<in> set (xs @ (k, v) # ys). array_index (fst e) = None) \<longrightarrow>
        buildArgs S (xs @ (k, v) # ys) = buildArgs S xs @ buildArgs S [(k, v)] @ buildArgs S ys)
   \<and> (v = VUndefined \<or> v = VBool False \<longrightarrow> buildArgs S [(k, v)] = [])
   \<and> (v = VBool True \<and> length k = 1 \<longrightarrow> buildArgs S [(k, v)] = [''-'' @ k])
   \<and> (v = VBool True \<and> length k \<noteq> 1 \<longrightarrow> buildArgs S [(k, v)] = [''--'' @ k])
   \<and> (v \<noteq> VUndefined \<and> v \<noteq> VBool False \<and> v \<noteq> VBool True \<and> length k = 1 \<longrightarrow>
        buildArgs S [(k, v)] = [''-'' @ k, String_value S v])
   \<and> (v \<noteq> VUndefined \<and> v \<noteq> VBool False \<and> v \<noteq> VBool True \<and> length k \<noteq> 1 \<longrightarrow>
        buildArgs S [(k, v)] = [''--'' @ k, String_value S v])
   \<and> String_value S (VNum n) = S n \<and> String_value S (VStr s) = s"
proof -
  have "buildArgs S options = buildArgs_loop S (Object_entries options)"
    by (simp add: buildArgs_def)
  also have "\<dots> = concat (map (\<lambda>e. buildArgs_loop S [e]) (Object_entries options))"
    by (rule buildArgs_loop_concat)
  also have "\<dots> = concat (map (\<lambda>e. buildArgs S [e]) (Object_entries options))"
    by (simp add: buildArgs_single)
  finally have tokens:
    "buildArgs S options = concat (map (\<lambda>e. buildArgs S [e]) (Object_entries options))" .
  have plain: "buildArgs S (xs @ (k, v) # ys) = buildArgs S xs @ buildArgs S [(k, v)] @ buildArgs S ys"
    if none: "\<forall>e \<in> set (xs @ (k, v) # ys). array_index (fst e) = None"
  proof -
    have a: "Object_entries (xs @ (k, v) # ys) = xs @ (k, v) # ys"
      using none by (rule Object_entries_no_index)
    have b: "Object_entries xs = xs" "Object_entries ys = ys"
      using none by (simp_all add: Object_entries_no_index)
    have "buildArgs_loop S (xs @ [(k, v)] @ ys)
          = buildArgs_loop S xs @ buildArgs_loop S [(k, v)] @ buildArgs_loop S ys"
      by (simp only: buildArgs_loop_append)
    then show ?thesis
      using a b by (simp add: buildArgs_def Object_entries_single)
  qed
  have entry: "buildArgs S [(k, u)] = buildArgs_loop S [(k, u)]" for u
    by (rule buildArgs_single)
  have r1: "v = VUndefined \<or> v = VBool False \<longrightarrow> buildArgs S [(k, v)] = []"
    by (auto simp: entry)
  have r2: "v = VBool True \<and> length k = 1 \<longrightarrow> buildArgs S [(k, v)] = [''-'' @ k]"
    by (simp add: entry)
  have r3: "v = VBool True \<and> length k \<noteq> 1 \<longrightarrow> buildArgs S [(k, v)] = [''--'' @ k]"
    by (simp add: entry)
  have r4: "v \<noteq> VUndefined \<and> v \<noteq> VBool False \<and> v \<noteq> VBool True \<and> length k = 1 \<longrightarrow>
        buildArgs S [(k, v)] = [''-'' @ k, String_value S v]"
    by (simp add: entry)
  have r5: "v \<noteq> VUndefined \<and> v \<noteq> VBool False \<and> v \<noteq> VBool True \<and> length k \<noteq> 1 \<longrightarrow>
        buildArgs S [(k, v)] = [''--'' @ k, String_value S v]"
    by (simp add: entry)
  have r6: "String_value S (VNum n) = S n" and r7: "String_value S (VStr s) = s"
    by (simp_all add: String_value_def)
  have same: "set (Object_entries options) = set options"
    "length (Object_entries options) = length options"
    using Object_entries_same [of options] by simp_all
  have plain': "(\<forall>e \<in> set (xs @ (k, v) # ys). array_index (fst e) = None) \<longrightarrow>
        buildArgs S (xs @ (k, v) # ys) = buildArgs S xs @ buildArgs S [(k, v)] @ buildArgs S ys"
    using plain by (rule impI)
  show ?thesis
    by (intro conjI)
       (rule tokens same Object_entries_split Object_entries_sorted Object_entries_others
          array_index_iff plain' r1 r2 r3 r4 r5 r6 r7)+
qed

text \<open>
  An option set with \<open>true\<close>, \<open>false\<close>, the number 0 and the empty string, none of its keys
  an array index; and the key \<open>1\<close>, which is one.
\<close>

theorem buildArgs_tokens_witness:
  "buildArgs String_int
     ([(''json'', VBool True), (''q'', VBool False)] @ (''n'', VNum 0) # [(''data'', VStr [])])
   = [''--json''] @ [''-n'', ''0''] @ [''--data'', []]
   \<and> array_index ''1'' = Some 1"
proof -
  let ?xs = "[(''json'', VBool True), (''q'', VBool False)] :: (string \<times> int opt_value) list"
  let ?ys = "[(''data'', VStr [])] :: (string \<times> int opt_value) list"
  have zero: "String_int 0 = ''0''"
    by (simp add: String_int_def toString_radix_def nat_to_radix.simps digit_char_def)
  have one: "nat_to_radix 10 1 = ''1''"
    by (simp add: nat_to_radix.simps digit_char_def)
  have none: "\<forall>e \<in> set (?xs @ (''n'', VNum 0) # ?ys). array_index (fst e) = None"
    by (simp add: array_index_def parse_nat_def digit_val_def)
  note inst = buildArgs_tokens [of String_int "?xs @ (''n'', VNum 0) # ?ys" "''1''" 1
      ?xs "''n''" "VNum 0" ?ys 0 "[]"]
  have order: "buildArgs String_int (?xs @ (''n'', VNum 0) # ?ys)
      = buildArgs String_int ?xs @ buildArgs String_int [(''n'', VNum 0)] @ buildArgs String_int ?ys"
    using inst none by blast
  have entry: "buildArgs String_int [(''n'', VNum 0)] = [''-n'', ''0'']"
    using inst by (simp add: zero)
  have index: "array_index ''1'' = Some 1"
    using inst one by simp
  have rest: "buildArgs String_int ?xs = [''--json'']" "buildArgs String_int ?ys = [''--data'', []]"
    by (simp_all add: buildArgs_def Object_entries_def array_index_def parse_nat_def digit_val_def
        String_value_def)
  show ?thesis
    using order entry index rest by simp
qed

text \<open>
  Claim C2 as stated fails for the order: in the option set with \<open>verbose\<close> inserted
  before the key \<open>1\<close>, the tokens of \<open>1\<close> come first.
\<close>

theorem buildArgs_order_counterexample:
  "buildArgs String_int [(''verbose'', VBool True), (''1'', VStr ''x'')]
     = [''-1'', ''x'', ''--verbose'']
   \<and> buildArgs String_int [(''verbose'', VBool True), (''1'', VStr ''x'')]
     \<noteq> buildArgs String_int [(''verbose'', VBool True)] @ buildArgs String_int [(''1'', VStr ''x'')]"
  by (simp add: buildArgs_def Object_entries_def array_index_def parse_nat_def digit_val_def
      nat_to_radix.simps digit_char_def String_value_def)

section \<open>Properties of the Output Formatter\<close>

text \<open>
  Claim C3. \<open>formatOutput\<close> is a function of the CommandResult alone. On success it is
  \<open>stdout\<close>, or the fixed sentence when \<open>stdout\<close> is empty. On failure it is, each on a
  line of its own, \<open>Error:\<close> and \<open>stderr\<close> if \<open>stderr\<close> is not empty, \<open>Output:\<close> and \<open>stdout\<close>
  if \<open>stdout\<close> is not empty, and always \<open>Exit code:\<close> with the exit code. In every case
  the text is not empty.
\<close>

theorem formatOutput_spec:
  "(success r \<and> stdout r \<noteq> [] \<longrightarrow> formatOutput r = stdout r)
   \<and> (success r \<and> stdout r = [] \<longrightarrow> formatOutput r = ''Command completed successfully.'')
   \<and> (\<not> success r \<longrightarrow>
        formatOutput r =
          (if stderr r \<noteq> [] then ''Error: '' @ stderr r @ [CHR 0x0A] else [])
          @ (if stdout r \<noteq> [] then ''Output: '' @ stdout r @ [CHR 0x0A] else [])
          @ ''Exit code: '' @ String_int (exitCode r))
   \<and> formatOutput r \<noteq> []"
  by (simp add: formatOutput_def Let_def)

text \<open>A failure with both streams empty, and a success with empty \<open>stdout\<close>.\<close>

theorem formatOutput_spec_witness:
  "formatOutput \<lparr>success = False, stdout = [], stderr = [], exitCode = 2\<rparr> = ''Exit code: 2''
   \<and> formatOutput \<lparr>success = True, stdout = [], stderr = ''warn'', exitCode = 0\<rparr>
       = ''Command completed successfully.''"
proof -
  have two: "String_int 2 = ''2''"
    by (simp add: String_int_def toString_radix_def nat_to_radix.simps digit_char_def)
  show ?thesis
    using formatOutput_spec [of "\<lparr>success = False, stdout = [], stderr = [], exitCode = 2\<rparr>"]
      formatOutput_spec [of "\<lparr>success = True, stdout = [], stderr = ''warn'', exitCode = 0\<rparr>"]
    by (simp add: two)
qed

section \<open>The registry as a map\<close>

lemma Map_get_delete: "Map_get (Map_delete m k) q = (if q = k then None else Map_get m q)"
  by (induction m) auto

lemma Map_get_set: "Map_get (Map_set m k v) q = (if q = k then Some v else Map_get m q)"
  by (induction m) auto

lemma keys_Map_delete: "map fst (Map_delete m k) = filter (\<lambda>q. q \<noteq> k) (map fst m)"
  by (induction m) auto

lemma set_Map_delete: "set (Map_delete m k) \<subseteq> set m"
  by (induction m) (auto split: if_splits)

lemma set_Map_set: "set (Map_set m k v) \<subseteq> insert (k, v) (set m)"
  by (induction m) (auto split: if_splits)

lemma keys_Map_set:
  "map fst (Map_set m k v) = (if k \<in> set (map fst m) then map fst m else map fst m @ [k])"
  by (induction m) (auto simp: rev_image_eqI)

lemma distinct_Map_set: "distinct (map fst m) \<Longrightarrow> distinct (map fst (Map_set m k v))"
  by (simp add: keys_Map_set)

lemma one_per_port_delete: "one_per_port m \<Longrightarrow> one_per_port (Map_delete m k)"
  unfolding one_per_port_def
  using set_Map_delete [of m k] by (auto simp: keys_Map_delete)

lemma one_per_port_set: "one_per_port m \<Longrightarrow> port v = k \<Longrightarrow> one_per_port (Map_set m k v)"
  unfolding one_per_port_def
  using set_Map_set [of m k v] by (auto simp: distinct_Map_set)

lemma Map_get_in_set: "Map_get m k = Some v \<Longrightarrow> (k, v) \<in> set m"
  by (induction m) (auto split: if_splits)

lemma in_set_Map_get: "(k, v) \<in> set m \<Longrightarrow> Map_get m k \<noteq> None"
  by (induction m) auto

lemma Map_get_foldl_delete:
  "Map_get (foldl Map_delete m ks) q = (if q \<in> set ks then None else Map_get m q)"
  by (induction ks arbitrary: m) (auto simp: Map_get_delete)

lemma one_per_port_foldl_delete: "one_per_port m \<Longrightarrow> one_per_port (foldl Map_delete m ks)"
  by (induction ks arbitrary: m) (auto simp: one_per_port_delete)

lemma join_contains: "x \<in> set xs \<Longrightarrow> \<exists>a b. join sep xs = a @ x @ b"
proof (induction sep xs rule: join.induct)
  case (1 sep)
  then show ?case by simp
next
  case (2 sep y)
  then have "join sep [y] = [] @ x @ []" by simp
  then show ?case by blast
next
  case (3 sep y z zs)
  show ?case
  proof (cases "x = y")
    case True
    then have "join sep (y # z # zs) = [] @ x @ (sep @ join sep (z # zs))" by simp
    then show ?thesis by blast
  next
    case False
    with 3 obtain a b where "join sep (z # zs) = a @ x @ b" by auto
    then have "join sep (y # z # zs) = (y @ sep @ a) @ x @ b" by simp
    then show ?thesis by blast
  qed
qed

lemma jsonRpcCall_requests:
  "snd (jsonRpcCall f u mth ps) =
     [\<lparr>url = u, http_method = ''POST'',
       headers = [(''Content-Type'', ''application/json'')],
       body = JObj [(''jsonrpc'', JStr ''2.0''), (''id'', JNum 1),
                    (''method'', JStr mth), (''params'', JArr ps)]\<rparr>]"
  by (simp add: jsonRpcCall_def Let_def)

lemma probe_call:
  "jsonRpcCall (fetch_json w) (''http://127.0.0.1:'' @ String_int p) ''eth_chainId'' [] =
     (probe w p, [probe_request p])"
  using jsonRpcCall_requests [of "fetch_json w" "''http://127.0.0.1:'' @ String_int p"
      "''eth_chainId''" "[]"]
  by (simp add: probe_def probe_request_def prod_eq_iff)

lemma try_chainId_eq:
  "try_chainId w p =
     ((case probe w p of Inl e \<Rightarrow> Inl e | Inr r \<Rightarrow> String_js r), [probe_request p])"
  unfolding try_chainId_def probe_call by (simp split: sum.splits)

lemma status_loop_eq:
  "status_loop w es m st ef =
     (foldl Map_delete m (map fst (filter (\<lambda>e. isl (fst (try_chainId w (fst e)))) es)),
      st @ map (\<lambda>e. case fst (try_chainId w (fst e)) of
                       Inr chain \<Rightarrow>
                         ''Port '' @ String_int (fst e) @ '': Running (PID: ''
                         @ String_int (pid (snd e)) @ '', Chain ID: '' @ chain @ '')''
                     | Inl x \<Rightarrow> ''Port '' @ String_int (fst e) @ '': Not responding (removed)'') es,
      ef @ map (\<lambda>e. Fetch (probe_request (fst e))) es)"
proof (induction es arbitrary: m st ef)
  case Nil
  then show ?case by simp
next
  case (Cons a es)
  obtain p inst where a: "a = (p, inst)" by (cases a)
  obtain r where r: "try_chainId w p = (r, [probe_request p])"
    by (simp add: try_chainId_eq)
  show ?case
  proof (cases r)
    case (Inl e)
    then show ?thesis using a r by (simp add: Cons.IH)
  next
    case (Inr chain)
    then show ?thesis using a r by (simp add: Cons.IH)
  qed
qed

lemma anvil_start_invariant:
  "one_per_port m \<Longrightarrow> one_per_port (fst (snd (anvil_start w m port_arg options)))"
  by (auto simp: anvil_start_def Let_def one_per_port_set split: sum.splits prod.splits)

lemma anvil_stop_invariant:
  "one_per_port m \<Longrightarrow> one_per_port (fst (snd (anvil_stop w m port_arg)))"
  by (auto simp: anvil_stop_def Let_def one_per_port_delete split: option.splits)

lemma anvil_status_invariant:
  "one_per_port m \<Longrightarrow> one_per_port (fst (snd (anvil_status w m port_arg)))"
  by (auto simp: anvil_status_def Let_def one_per_port_delete status_loop_eq
      one_per_port_foldl_delete split: option.splits sum.splits prod.splits)

lemma handle_invariant: "one_per_port m \<Longrightarrow> one_per_port (fst (snd (handle w m r)))"
  by (cases r) (simp_all add: anvil_start_invariant anvil_stop_invariant anvil_status_invariant)

lemma run_invariant: "one_per_port m \<Longrightarrow> one_per_port (run m ops)"
proof (induction ops arbitrary: m)
  case Nil
  then show ?case by simp
next
  case (Cons a ops)
  obtain w r where "a = (w, r)" by (cases a)
  with Cons show ?case by (simp add: handle_invariant)
qed

lemma String_int_examples:
  "String_int 8545 = ''8545''" "String_int 8546 = ''8546''" "String_int 9000 = ''9000''"
  by (simp_all add: String_int_def toString_radix_def nat_to_radix.simps digit_char_def)

lemma no_array_index_port: "array_index ''port'' = None" "array_index ''silent'' = None"
  by (simp_all add: array_index_def parse_nat_def digit_val_def)

lemma Map_has_keys: "Map_has m k = (k \<in> set (map fst m))"
  by (induction m) (auto simp: Map_has_def)

lemma entries_of_key:
  "distinct (map fst m) \<Longrightarrow>
   length (filter (\<lambda>e. fst e = k) m) = (if Map_has m k then 1 else 0)"
proof (induction m)
  case Nil
  then show ?case by (simp add: Map_has_def)
next
  case (Cons a m)
  then have IH: "length (filter (\<lambda>e. fst e = k) m) = (if Map_has m k then 1 else 0)" by simp
  from Cons.prems have "fst a \<notin> set (map fst m)" by simp
  then have "fst a = k \<Longrightarrow> \<not> Map_has m k" by (simp add: Map_has_keys)
  then show ?case
    using IH by (cases a) (auto simp: Map_has_def)
qed

lemma Map_get_None_keys: "Map_get m q = None \<longleftrightarrow> q \<notin> fst ` set m"
  by (induction m) (auto split: if_splits)

section \<open>Properties of the start, stop and status handlers\<close>

text \<open>
  Claim C4. When the registry already has an entry for the port (the given one, or 8545
  when none is given), \<open>anvil_start\<close> answers that Anvil is already running on the port,
  leaves the registry as it is and has no effect on the world: nothing is spawned. In
  particular, after a start that succeeds the port is tracked, a second start for it,
  in any world and with any options, gives that answer, and the registry has exactly
  one entry for the port. After any sequence of start, stop and status requests, in
  whatever worlds, the registry holds at most one tracked instance per port; this holds
  from the empty registry of a fresh server and from any registry that has the
  property.
\<close>

theorem anvil_start_already_running:
  "(p = (case port_arg of None \<Rightarrow> 8545 | Some q \<Rightarrow> q) \<and> Map_has m p \<longrightarrow>
      anvil_start w m port_arg options =
        (Inr (''Anvil is already running on port '' @ String_int p), m, []))
   \<and> (p = (case port_arg of None \<Rightarrow> 8545 | Some q \<Rightarrow> q) \<and> \<not> Map_has m p
      \<and> world_spawn w (''anvil'' # buildArgs String_int ((''port'', VNum p) # options)) = Inr child
      \<and> probe w p = Inr chainId \<and> m' = fst (snd (anvil_start w m port_arg options)) \<longrightarrow>
      Map_has m' p
      \<and> anvil_start w' m' port_arg options' =
          (Inr (''Anvil is already running on port '' @ String_int p), m', [])
      \<and> (one_per_port m \<longrightarrow> length (filter (\<lambda>e. fst e = p) m') = 1))
   \<and> (one_per_port m \<longrightarrow> one_per_port (run m ops))
   \<and> one_per_port (run [] ops)"
proof -
  have "one_per_port []" by (simp add: one_per_port_def)
  then have fresh: "one_per_port (run [] ops)" by (rule run_invariant)
  have again: "anvil_start v r port_arg opts =
        (Inr (''Anvil is already running on port '' @ String_int p), r, [])"
    if "p = (case port_arg of None \<Rightarrow> 8545 | Some q \<Rightarrow> q)" "Map_has r p" for v r opts
    using that by (simp add: anvil_start_def Let_def)
  have started: "Map_has m' p
      \<and> anvil_start w' m' port_arg options' =
          (Inr (''Anvil is already running on port '' @ String_int p), m', [])
      \<and> (one_per_port m \<longrightarrow> length (filter (\<lambda>e. fst e = p) m') = 1)"
    if p: "p = (case port_arg of None \<Rightarrow> 8545 | Some q \<Rightarrow> q)" and free: "\<not> Map_has m p"
      and spawned: "world_spawn w (''anvil'' # buildArgs String_int ((''port'', VNum p) # options))
                    = Inr child"
      and ok: "probe w p = Inr chainId"
      and m': "m' = fst (snd (anvil_start w m port_arg options))"
  proof -
    have "\<exists>v. m' = Map_set m p v"
      unfolding m' anvil_start_def Let_def p [symmetric] probe_call
      using free spawned ok by (auto split: sum.splits)
    then have has: "Map_has m' p" by (auto simp: Map_has_def Map_get_set)
    have "one_per_port m' " if "one_per_port m"
      unfolding m' using that by (rule anvil_start_invariant)
    then have "length (filter (\<lambda>e. fst e = p) m') = 1" if "one_per_port m"
      using that has entries_of_key [of m' p] by (simp add: one_per_port_def)
    with has again [OF p has] show ?thesis by simp
  qed
  show ?thesis
    using fresh run_invariant [of m ops] again [of m w options] started by blast
qed

text \<open>A start on a tracked port, and two starts on port 8545 from the empty registry.\<close>

theorem anvil_start_already_running_witness:
  "anvil_start
     \<lparr>world_spawn = (\<lambda>a. Inr 4242), fetch_json = node_ok, process_kill = (\<lambda>k s. None)\<rparr>
     [(8545, \<lparr>port = 8545, pid = 7, forkUrl = None\<rparr>)] None [(''silent'', VBool True)]
   = (Inr ''Anvil is already running on port 8545'',
      [(8545, \<lparr>port = 8545, pid = 7, forkUrl = None\<rparr>)], [])
   \<and> fst (snd (anvil_start
       \<lparr>world_spawn = (\<lambda>a. Inr 4242), fetch_json = node_ok, process_kill = (\<lambda>k s. None)\<rparr>
       [] None []))
     = [(8545, \<lparr>port = 8545, pid = 4242, forkUrl = None\<rparr>)]
   \<and> anvil_start
       \<lparr>world_spawn = (\<lambda>a. Inr 4243), fetch_json = node_error, process_kill = (\<lambda>k s. None)\<rparr>
       [(8545, \<lparr>port = 8545, pid = 4242, forkUrl = None\<rparr>)] None []
     = (Inr ''Anvil is already running on port 8545'',
        [(8545, \<lparr>port = 8545, pid = 4242, forkUrl = None\<rparr>)], [])
   \<and> length (filter (\<lambda>e. fst e = 8545) [(8545, \<lparr>port = 8545, pid = 4242, forkUrl = None\<rparr>)]) = 1
   \<and> one_per_port
       (run []
          [(\<lparr>world_spawn = (\<lambda>a. Inr 4242), fetch_json = node_ok,
             process_kill = (\<lambda>k s. None)\<rparr>, AnvilStart None []),
           (\<lparr>world_spawn = (\<lambda>a. Inr 4243), fetch_json = node_error,
             process_kill = (\<lambda>k s. None)\<rparr>, AnvilStart (Some 8545) [])])"
proof -
  let ?w = "\<lparr>world_spawn = (\<lambda>a. Inr 4242), fetch_json = node_ok, process_kill = (\<lambda>k s. None)\<rparr>"
  let ?w' = "\<lparr>world_spawn = (\<lambda>a. Inr 4243), fetch_json = node_error,
              process_kill = (\<lambda>k s. None)\<rparr>"
  let ?ops = "[(?w, AnvilStart None []), (?w', AnvilStart (Some 8545) [])]"
  have up: "probe ?w 8545 = Inr (Some (JStr ''0x1''))"
    by (simp add: probe_def jsonRpcCall_def node_ok_def get_prop_def truthy_def)
  have first: "fst (snd (anvil_start ?w [] None []))
      = [(8545, \<lparr>port = 8545, pid = 4242, forkUrl = None\<rparr>)]"
    by (simp add: anvil_start_def Map_has_def jsonRpcCall_def node_ok_def get_prop_def truthy_def
        String_js_def)
  have fresh: "one_per_port []" by (simp add: one_per_port_def)
  show ?thesis
    using anvil_start_already_running [of 8545 None
        "[(8545, \<lparr>port = 8545, pid = 7, forkUrl = None\<rparr>)]" ?w "[(''silent'', VBool True)]"
        4242 "Some (JStr ''0x1'')" "[]" ?w' "[]" ?ops]
      anvil_start_already_running [of 8545 None "[]" ?w "[]"
        4242 "Some (JStr ''0x1'')" "[(8545, \<lparr>port = 8545, pid = 4242, forkUrl = None\<rparr>)]"
        ?w' "[]" ?ops]
      up first fresh
    by (simp add: Map_has_def String_int_examples buildArgs_def Object_entries_def
        no_array_index_port)
qed

text \<open>
  Claim C5. When the port is not tracked, the spawn gives a child process and the
  liveness probe after it fails, \<open>anvil_start\<close> calls \<open>kill()\<close> on the child, answers that
  the start failed, and returns the registry unchanged: nothing is inserted.
\<close>

theorem anvil_start_probe_failure:
  "p = (case port_arg of None \<Rightarrow> 8545 | Some q \<Rightarrow> q) \<and> \<not> Map_has m p
   \<and> world_spawn w (''anvil'' # buildArgs String_int ((''port'', VNum p) # options)) = Inr child
   \<and> probe w p = Inl e \<longrightarrow>
   anvil_start w m port_arg options =
     (Inr (''Failed to start Anvil on port '' @ String_int p
           @ ''. Check if the port is available.''),
      m,
      [Spawn (''anvil'' # buildArgs String_int ((''port'', VNum p) # options)),
       Sleep 1000,
       Fetch \<lparr>url = ''http://127.0.0.1:'' @ String_int p, http_method = ''POST'',
              headers = [(''Content-Type'', ''application/json'')],
              body = JObj [(''jsonrpc'', JStr ''2.0''), (''id'', JNum 1),
                           (''method'', JStr ''eth_chainId''), (''params'', JArr [])]\<rparr>,
       ChildKill child])"
proof (intro impI, elim conjE)
  assume p: "p = (case port_arg of None \<Rightarrow> 8545 | Some q \<Rightarrow> q)"
    and free: "\<not> Map_has m p"
    and spawned: "world_spawn w (''anvil'' # buildArgs String_int ((''port'', VNum p) # options))
                  = Inr child"
    and fails: "probe w p = Inl e"
  show "anvil_start w m port_arg options =
     (Inr (''Failed to start Anvil on port '' @ String_int p
           @ ''. Check if the port is available.''),
      m,
      [Spawn (''anvil'' # buildArgs String_int ((''port'', VNum p) # options)),
       Sleep 1000,
       Fetch \<lparr>url = ''http://127.0.0.1:'' @ String_int p, http_method = ''POST'',
              headers = [(''Content-Type'', ''application/json'')],
              body = JObj [(''jsonrpc'', JStr ''2.0''), (''id'', JNum 1),
                           (''method'', JStr ''eth_chainId''), (''params'', JArr [])]\<rparr>,
       ChildKill child])"
    unfolding anvil_start_def Let_def p [symmetric] probe_call
    using free spawned fails by (simp add: probe_request_def)
qed

text \<open>A start on port 8546 while nothing answers there.\<close>

theorem anvil_start_probe_failure_witness:
  "anvil_start
     \<lparr>world_spawn = (\<lambda>a. Inr 4242),
      fetch_json = (\<lambda>r. Inl (Error ''ECONNREFUSED'')),
      process_kill = (\<lambda>p s. None)\<rparr>
     [(8545, \<lparr>port = 8545, pid = 7, forkUrl = None\<rparr>)] (Some 8546) []
   = (Inr ''Failed to start Anvil on port 8546. Check if the port is available.'',
      [(8545, \<lparr>port = 8545, pid = 7, forkUrl = None\<rparr>)],
      [Spawn [''anvil'', ''--port'', ''8546''],
       Sleep 1000,
       Fetch \<lparr>url = ''http://127.0.0.1:8546'', http_method = ''POST'',
              headers = [(''Content-Type'', ''application/json'')],
              body = JObj [(''jsonrpc'', JStr ''2.0''), (''id'', JNum 1),
                           (''method'', JStr ''eth_chainId''), (''params'', JArr [])]\<rparr>,
       ChildKill 4242])"
  using anvil_start_probe_failure [of 8546 "Some 8546"
      "[(8545, \<lparr>port = 8545, pid = 7, forkUrl = None\<rparr>)]"
      "\<lparr>world_spawn = (\<lambda>a. Inr 4242),
        fetch_json = (\<lambda>r. Inl (Error ''ECONNREFUSED'')),
        process_kill = (\<lambda>p s. None)\<rparr>"
      "[]" 4242 "Error ''ECONNREFUSED''"]
  by (simp add: Map_has_def probe_def jsonRpcCall_def buildArgs_def Object_entries_def
      no_array_index_port String_value_def String_int_examples)

text \<open>
  Claim C6. The probe of a port is one POST of \<open>eth_chainId\<close> to
  \<open>http://127.0.0.1:\<close> followed by the port, and every status branch sends exactly that
  request for the port it looks at.
  Single-port status of a tracked port whose probe fails: the answer is that the port is
  not responding, the entry is deleted, and a later status call for the port, in any
  world, finds no tracked instance: it probes the port directly, reports what it finds
  and leaves the registry as it is. Single-port status of a tracked port whose probe
  answers: the running report with the process id, the chain id and the fork URL, the
  registry unchanged.
  Single-port status of an untracked port: the direct probe; when it answers, the
  untracked-running report with the chain id (for a chain id that is a string, the
  string itself); when it fails, or its result cannot be rendered, the report that no
  instance is running; in every case the registry is unchanged.
  All-ports status: every tracked port is probed, in the order of the registry; an entry
  whose probe fails is gone from the registry afterwards and is reported as not
  responding; an entry whose probe answers with a result that can be rendered is kept
  and reported as running; an entry is kept exactly in that case.
\<close>

theorem anvil_status_self_healing:
  "probe w p =
     fst (jsonRpcCall (fetch_json w) (''http://127.0.0.1:'' @ String_int p) ''eth_chainId'' [])
   \<and> probe_request p =
       \<lparr>url = ''http://127.0.0.1:'' @ String_int p, http_method = ''POST'',
        headers = [(''Content-Type'', ''application/json'')],
        body = JObj [(''jsonrpc'', JStr ''2.0''), (''id'', JNum 1),
                     (''method'', JStr ''eth_chainId''), (''params'', JArr [])]\<rparr>
   \<and> String_js (Some (JStr s)) = Inr s
   \<and> (p \<noteq> 0 \<and> Map_get m p = Some inst \<and> probe w p = Inl e \<longrightarrow>
        anvil_status w m (Some p) =
          (Inr (''Anvil on port '' @ String_int p @ '' is not responding (removed from tracking)''),
           Map_delete m p, [Fetch (probe_request p)])
        \<and> \<not> Map_has (Map_delete m p) p
        \<and> anvil_status w' (Map_delete m p) (Some p) =
            (Inr (case probe w' p of
                    Inl e' \<Rightarrow> ''No Anvil instance running on port '' @ String_int p
                  | Inr r' \<Rightarrow>
                      (case String_js r' of
                         Inr chain' \<Rightarrow>
                           ''Anvil running on port '' @ String_int p @ '' (untracked)''
                           @ [CHR 0x0A] @ ''Chain ID: '' @ chain'
                       | Inl e' \<Rightarrow> ''No Anvil instance running on port '' @ String_int p)),
             Map_delete m p, [Fetch (probe_request p)]))
   \<and> (p \<noteq> 0 \<and> Map_get m p = Some inst \<and> probe w p = Inr r \<and> String_js r = Inr chain \<longrightarrow>
        anvil_status w m (Some p) =
          (Inr (''Anvil running on port '' @ String_int p
                @ [CHR 0x0A] @ ''PID: '' @ String_int (pid inst)
                @ [CHR 0x0A] @ ''Chain ID: '' @ chain
                @ [CHR 0x0A] @ ''Fork URL: ''
                @ (case forkUrl inst of
                     Some u \<Rightarrow> if u \<noteq> [] then u else ''none''
                   | None \<Rightarrow> ''none'')),
           m, [Fetch (probe_request p)]))
   \<and> (p \<noteq> 0 \<and> Map_get m p = None \<longrightarrow>
        anvil_status w m (Some p) =
          (Inr (case probe w p of
                  Inl e' \<Rightarrow> ''No Anvil instance running on port '' @ String_int p
                | Inr r' \<Rightarrow>
                    (case String_js r' of
                       Inr chain' \<Rightarrow>
                         ''Anvil running on port '' @ String_int p @ '' (untracked)''
                         @ [CHR 0x0A] @ ''Chain ID: '' @ chain'
                     | Inl e' \<Rightarrow> ''No Anvil instance running on port '' @ String_int p)),
           m, [Fetch (probe_request p)]))
   \<and> (p \<noteq> 0 \<and> Map_get m p = None \<and> probe w p = Inr (Some (JStr s)) \<longrightarrow>
        fst (anvil_status w m (Some p)) =
          Inr (''Anvil running on port '' @ String_int p @ '' (untracked)''
               @ [CHR 0x0A] @ ''Chain ID: '' @ s))
   \<and> (port_arg = None \<or> port_arg = Some 0 \<longrightarrow>
        snd (snd (anvil_status w m port_arg)) = map (\<lambda>t. Fetch (probe_request (fst t))) m
        \<and> (\<forall>q. Map_get (fst (snd (anvil_status w m port_arg))) q =
               (case probe w q of
                  Inl e' \<Rightarrow> None
                | Inr r' \<Rightarrow> (case String_js r' of Inl e' \<Rightarrow> None | Inr c \<Rightarrow> Map_get m q))))
   \<and> ((port_arg = None \<or> port_arg = Some 0) \<and> (p, inst) \<in> set m \<and> probe w p = Inl e \<longrightarrow>
        \<not> Map_has (fst (snd (anvil_status w m port_arg))) p
        \<and> (\<exists>a b. fst (anvil_status w m port_arg) =
               Inr (a @ ''Port '' @ String_int p @ '': Not responding (removed)'' @ b)))
   \<and> ((port_arg = None \<or> port_arg = Some 0) \<and> (p, inst) \<in> set m \<and> probe w p = Inr r
        \<and> String_js r = Inr chain \<longrightarrow>
        (\<exists>a b. fst (anvil_status w m port_arg) =
               Inr (a @ ''Port '' @ String_int p @ '': Running (PID: '' @ String_int (pid inst)
                    @ '', Chain ID: '' @ chain @ '')'' @ b)))"
proof -
  have c1: "probe w p =
     fst (jsonRpcCall (fetch_json w) (''http://127.0.0.1:'' @ String_int p) ''eth_chainId'' [])"
    by (simp add: probe_def)
  have c2: "probe_request p =
       \<lparr>url = ''http://127.0.0.1:'' @ String_int p, http_method = ''POST'',
        headers = [(''Content-Type'', ''application/json'')],
        body = JObj [(''jsonrpc'', JStr ''2.0''), (''id'', JNum 1),
                     (''method'', JStr ''eth_chainId''), (''params'', JArr [])]\<rparr>"
    by (simp add: probe_request_def)
  have c3: "String_js (Some (JStr s)) = Inr s"
    by (simp add: String_js_def)
  have untracked: "anvil_status v r (Some p) =
          (Inr (case probe v p of
                  Inl e' \<Rightarrow> ''No Anvil instance running on port '' @ String_int p
                | Inr r' \<Rightarrow>
                    (case String_js r' of
                       Inr chain' \<Rightarrow>
                         ''Anvil running on port '' @ String_int p @ '' (untracked)''
                         @ [CHR 0x0A] @ ''Chain ID: '' @ chain'
                     | Inl e' \<Rightarrow> ''No Anvil instance running on port '' @ String_int p)),
           r, [Fetch (probe_request p)])"
    if "p \<noteq> 0" "Map_get r p = None" for v r
    using that by (simp add: anvil_status_def Let_def try_chainId_eq split: sum.splits)
  have gone: "Map_get (Map_delete m p) p = None"
    by (simp add: Map_get_delete)
  have c4: "p \<noteq> 0 \<and> Map_get m p = Some inst \<and> probe w p = Inl e \<longrightarrow>
        anvil_status w m (Some p) =
          (Inr (''Anvil on port '' @ String_int p @ '' is not responding (removed from tracking)''),
           Map_delete m p, [Fetch (probe_request p)])
        \<and> \<not> Map_has (Map_delete m p) p
        \<and> anvil_status w' (Map_delete m p) (Some p) =
            (Inr (case probe w' p of
                    Inl e' \<Rightarrow> ''No Anvil instance running on port '' @ String_int p
                  | Inr r' \<Rightarrow>
                      (case String_js r' of
                         Inr chain' \<Rightarrow>
                           ''Anvil running on port '' @ String_int p @ '' (untracked)''
                           @ [CHR 0x0A] @ ''Chain ID: '' @ chain'
                       | Inl e' \<Rightarrow> ''No Anvil instance running on port '' @ String_int p)),
             Map_delete m p, [Fetch (probe_request p)])"
    using untracked [OF _ gone, of w']
    by (simp add: anvil_status_def Let_def try_chainId_eq Map_has_def gone)
  have c5: "p \<noteq> 0 \<and> Map_get m p = Some inst \<and> probe w p = Inr r \<and> String_js r = Inr chain \<longrightarrow>
        anvil_status w m (Some p) =
          (Inr (''Anvil running on port '' @ String_int p
                @ [CHR 0x0A] @ ''PID: '' @ String_int (pid inst)
                @ [CHR 0x0A] @ ''Chain ID: '' @ chain
                @ [CHR 0x0A] @ ''Fork URL: ''
                @ (case forkUrl inst of
                     Some u \<Rightarrow> if u \<noteq> [] then u else ''none''
                   | None \<Rightarrow> ''none'')),
           m, [Fetch (probe_request p)])"
    by (simp add: anvil_status_def Let_def try_chainId_eq)
  have c6: "p \<noteq> 0 \<and> Map_get m p = None \<longrightarrow>
        anvil_status w m (Some p) =
          (Inr (case probe w p of
                  Inl e' \<Rightarrow> ''No Anvil instance running on port '' @ String_int p
                | Inr r' \<Rightarrow>
                    (case String_js r' of
                       Inr chain' \<Rightarrow>
                         ''Anvil running on port '' @ String_int p @ '' (untracked)''
                         @ [CHR 0x0A] @ ''Chain ID: '' @ chain'
                     | Inl e' \<Rightarrow> ''No Anvil instance running on port '' @ String_int p)),
           m, [Fetch (probe_request p)])"
    using untracked [of m w] by simp
  have c7: "p \<noteq> 0 \<and> Map_get m p = None \<and> probe w p = Inr (Some (JStr s)) \<longrightarrow>
        fst (anvil_status w m (Some p)) =
          Inr (''Anvil running on port '' @ String_int p @ '' (untracked)''
               @ [CHR 0x0A] @ ''Chain ID: '' @ s)"
    using untracked [of m w] by (simp add: c3)
  let ?fails = "\<lambda>t. isl (fst (try_chainId w (fst t)))"
  let ?line = "\<lambda>t. case fst (try_chainId w (fst t)) of
                       Inr chain \<Rightarrow>
                         ''Port '' @ String_int (fst t) @ '': Running (PID: ''
                         @ String_int (pid (snd t)) @ '', Chain ID: '' @ chain @ '')''
                     | Inl x \<Rightarrow> ''Port '' @ String_int (fst t) @ '': Not responding (removed)''"
  have all: "anvil_status w m port_arg =
      (if m = [] then (Inr ''No tracked Anvil instances'', m, [])
       else (Inr (join [CHR 0x0A] (map ?line m)),
             foldl Map_delete m (map fst (filter ?fails m)),
             map (\<lambda>t. Fetch (probe_request (fst t))) m))"
    if "port_arg = None \<or> port_arg = Some 0"
    using that by (auto simp: anvil_status_def status_loop_eq)
  have get: "Map_get (fst (snd (anvil_status w m port_arg))) q =
               (case probe w q of
                  Inl e' \<Rightarrow> None
                | Inr r' \<Rightarrow> (case String_js r' of Inl e' \<Rightarrow> None | Inr c \<Rightarrow> Map_get m q))"
    if pa: "port_arg = None \<or> port_arg = Some 0" for q
  proof (cases "q \<in> fst ` set m")
    case False
    then have "Map_get m q = None" by (simp add: Map_get_None_keys)
    moreover have "q \<notin> set (map fst (filter ?fails m))" using False by auto
    ultimately show ?thesis
      by (simp add: all [OF pa] Map_get_foldl_delete split: sum.splits)
  next
    case True
    then have "q \<in> set (map fst (filter ?fails m)) \<longleftrightarrow> isl (fst (try_chainId w q))"
      by auto
    then show ?thesis
      using True by (auto simp: all [OF pa] Map_get_foldl_delete try_chainId_eq split: sum.splits)
  qed
  have c8: "port_arg = None \<or> port_arg = Some 0 \<longrightarrow>
        snd (snd (anvil_status w m port_arg)) = map (\<lambda>t. Fetch (probe_request (fst t))) m
        \<and> (\<forall>q. Map_get (fst (snd (anvil_status w m port_arg))) q =
               (case probe w q of
                  Inl e' \<Rightarrow> None
                | Inr r' \<Rightarrow> (case String_js r' of Inl e' \<Rightarrow> None | Inr c \<Rightarrow> Map_get m q)))"
    using get by (simp add: all)
  have reported: "\<exists>a b. fst (anvil_status w m port_arg) = Inr (a @ ?line (p, inst) @ b)"
    if pa: "port_arg = None \<or> port_arg = Some 0" and mem: "(p, inst) \<in> set m"
  proof -
    from mem have ne: "m \<noteq> []" by auto
    have "?line (p, inst) \<in> set (map ?line m)"
      using mem by (simp only: set_map) (rule imageI)
    from join_contains [OF this, of "[CHR 0x0A]"]
    obtain a b where "join [CHR 0x0A] (map ?line m) = a @ ?line (p, inst) @ b" by blast
    then show ?thesis using ne by (simp add: all [OF pa]) blast
  qed
  have c9: "(port_arg = None \<or> port_arg = Some 0) \<and> (p, inst) \<in> set m \<and> probe w p = Inl e \<longrightarrow>
        \<not> Map_has (fst (snd (anvil_status w m port_arg))) p
        \<and> (\<exists>a b. fst (anvil_status w m port_arg) =
               Inr (a @ ''Port '' @ String_int p @ '': Not responding (removed)'' @ b))"
  proof (intro impI, elim conjE)
    assume pa: "port_arg = None \<or> port_arg = Some 0" and mem: "(p, inst) \<in> set m"
      and fails: "probe w p = Inl e"
    have "\<not> Map_has (fst (snd (anvil_status w m port_arg))) p"
      using get [OF pa, of p] fails by (simp add: Map_has_def)
    moreover have "\<exists>a b. fst (anvil_status w m port_arg) =
               Inr (a @ ''Port '' @ String_int p @ '': Not responding (removed)'' @ b)"
      using reported [OF pa mem] fails by (simp add: try_chainId_eq)
    ultimately show "\<not> Map_has (fst (snd (anvil_status w m port_arg))) p
        \<and> (\<exists>a b. fst (anvil_status w m port_arg) =
               Inr (a @ ''Port '' @ String_int p @ '': Not responding (removed)'' @ b))"
      by (rule conjI)
  qed
  have c10: "(port_arg = None \<or> port_arg = Some 0) \<and> (p, inst) \<in> set m \<and> probe w p = Inr r
        \<and> String_js r = Inr chain \<longrightarrow>
        (\<exists>a b. fst (anvil_status w m port_arg) =
               Inr (a @ ''Port '' @ String_int p @ '': Running (PID: '' @ String_int (pid inst)
                    @ '', Chain ID: '' @ chain @ '')'' @ b))"
  proof (intro impI, elim conjE)
    assume pa: "port_arg = None \<or> port_arg = Some 0" and mem: "(p, inst) \<in> set m"
      and ok: "probe w p = Inr r" "String_js r = Inr chain"
    show "\<exists>a b. fst (anvil_status w m port_arg) =
               Inr (a @ ''Port '' @ String_int p @ '': Running (PID: '' @ String_int (pid inst)
                    @ '', Chain ID: '' @ chain @ '')'' @ b)"
      using reported [OF pa mem] ok by (simp add: try_chainId_eq)
  qed
  show ?thesis
    by (intro conjI) (rule c1 c2 c3 c4 c5 c6 c7 c8 c9 c10)+
qed

text \<open>
  Two tracked ports, of which 8545 does not answer: status of 8545, the same again,
  status of the untracked port 8546, and status of all ports. And a tracked port whose
  probe answers with a result that cannot be rendered.
\<close>

theorem anvil_status_self_healing_witness:
  "anvil_status
     \<lparr>world_spawn = (\<lambda>a. Inr 4242), fetch_json = node_not_8545, process_kill = (\<lambda>k s. None)\<rparr>
     [(8545, \<lparr>port = 8545, pid = 7, forkUrl = None\<rparr>),
      (8546, \<lparr>port = 8546, pid = 8, forkUrl = None\<rparr>)] (Some 8545)
   = (Inr ''Anvil on port 8545 is not responding (removed from tracking)'',
      [(8546, \<lparr>port = 8546, pid = 8, forkUrl = None\<rparr>)],
      [Fetch \<lparr>url = ''http://127.0.0.1:8545'', http_method = ''POST'',
              headers = [(''Content-Type'', ''application/json'')],
              body = JObj [(''jsonrpc'', JStr ''2.0''), (''id'', JNum 1),
                           (''method'', JStr ''eth_chainId''), (''params'', JArr [])]\<rparr>])
   \<and> anvil_status
     \<lparr>world_spawn = (\<lambda>a. Inr 4242), fetch_json = node_not_8545, process_kill = (\<lambda>k s. None)\<rparr>
     [(8546, \<lparr>port = 8546, pid = 8, forkUrl = None\<rparr>)] (Some 8545)
   = (Inr ''No Anvil instance running on port 8545'',
      [(8546, \<lparr>port = 8546, pid = 8, forkUrl = None\<rparr>)],
      [Fetch \<lparr>url = ''http://127.0.0.1:8545'', http_method = ''POST'',
              headers = [(''Content-Type'', ''application/json'')],
              body = JObj [(''jsonrpc'', JStr ''2.0''), (''id'', JNum 1),
                           (''method'', JStr ''eth_chainId''), (''params'', JArr [])]\<rparr>])
   \<and> anvil_status
     \<lparr>world_spawn = (\<lambda>a. Inr 4242), fetch_json = node_not_8545, process_kill = (\<lambda>k s. None)\<rparr>
     [] (Some 8546)
   = (Inr (''Anvil running on port 8546 (untracked)'' @ [CHR 0x0A] @ ''Chain ID: 0x1''), [],
      [Fetch \<lparr>url = ''http://127.0.0.1:8546'', http_method = ''POST'',
              headers = [(''Content-Type'', ''application/json'')],
              body = JObj [(''jsonrpc'', JStr ''2.0''), (''id'', JNum 1),
                           (''method'', JStr ''eth_chainId''), (''params'', JArr [])]\<rparr>])
   \<and> \<not> Map_has (fst (snd (anvil_status
     \<lparr>world_spawn = (\<lambda>a. Inr 4242), fetch_json = node_not_8545, process_kill = (\<lambda>k s. None)\<rparr>
     [(8545, \<lparr>port = 8545, pid = 7, forkUrl = None\<rparr>),
      (8546, \<lparr>port = 8546, pid = 8, forkUrl = None\<rparr>)] None))) 8545
   \<and> Map_get (fst (snd (anvil_status
     \<lparr>world_spawn = (\<lambda>a. Inr 4242), fetch_json = node_not_8545, process_kill = (\<lambda>k s. None)\<rparr>
     [(8545, \<lparr>port = 8545, pid = 7, forkUrl = None\<rparr>),
      (8546, \<lparr>port = 8546, pid = 8, forkUrl = None\<rparr>)] None))) 8546
     = Some \<lparr>port = 8546, pid = 8, forkUrl = None\<rparr>
   \<and> snd (snd (anvil_status
     \<lparr>world_spawn = (\<lambda>a. Inr 4242), fetch_json = node_not_8545, process_kill = (\<lambda>k s. None)\<rparr>
     [(8545, \<lparr>port = 8545, pid = 7, forkUrl = None\<rparr>),
      (8546, \<lparr>port = 8546, pid = 8, forkUrl = None\<rparr>)] None))
     = [Fetch \<lparr>url = ''http://127.0.0.1:8545'', http_method = ''POST'',
              headers = [(''Content-Type'', ''application/json'')],
              body = JObj [(''jsonrpc'', JStr ''2.0''), (''id'', JNum 1),
                           (''method'', JStr ''eth_chainId''), (''params'', JArr [])]\<rparr>,
        Fetch \<lparr>url = ''http://127.0.0.1:8546'', http_method = ''POST'',
              headers = [(''Content-Type'', ''application/json'')],
              body = JObj [(''jsonrpc'', JStr ''2.0''), (''id'', JNum 1),
                           (''method'', JStr ''eth_chainId''), (''params'', JArr [])]\<rparr>]
   \<and> Map_get (fst (snd (anvil_status
     \<lparr>world_spawn = (\<lambda>a. Inr 4242), fetch_json = node_odd_result, process_kill = (\<lambda>k s. None)\<rparr>
     [(8545, \<lparr>port = 8545, pid = 7, forkUrl = None\<rparr>)] None))) 8545 = None"
proof -
  let ?w = "\<lparr>world_spawn = (\<lambda>a. Inr 4242), fetch_json = node_not_8545,
             process_kill = (\<lambda>k s. None)\<rparr>"
  let ?v = "\<lparr>world_spawn = (\<lambda>a. Inr 4242), fetch_json = node_odd_result,
             process_kill = (\<lambda>k s. None)\<rparr>"
  let ?i = "\<lparr>port = 8545, pid = 7, forkUrl = None\<rparr>"
  let ?j = "\<lparr>port = 8546, pid = 8, forkUrl = None\<rparr>"
  let ?m = "[(8545, ?i), (8546, ?j)]"
  have down: "probe ?w 8545 = Inl (Error ''ECONNREFUSED'')"
    by (simp add: probe_def jsonRpcCall_def node_not_8545_def String_int_examples)
  have up: "probe ?w 8546 = Inr (Some (JStr ''0x1''))"
    by (simp add: probe_def jsonRpcCall_def node_not_8545_def node_ok_def get_prop_def truthy_def
        String_int_examples)
  note a = anvil_status_self_healing [of ?w 8545 "''0x1''" ?m ?i "Error ''ECONNREFUSED''" ?w
      "Some (JStr ''0x1'')" "''0x1''" None]
  note b = anvil_status_self_healing [of ?w 8546 "''0x1''" "[]" ?j "Error ''ECONNREFUSED''" ?w
      "Some (JStr ''0x1'')" "''0x1''" None]
  note c = anvil_status_self_healing [of ?w 8546 "''0x1''" ?m ?j "Error ''ECONNREFUSED''" ?w
      "Some (JStr ''0x1'')" "''0x1''" None]
  have req5: "probe_request 8545 = \<lparr>url = ''http://127.0.0.1:8545'', http_method = ''POST'',
              headers = [(''Content-Type'', ''application/json'')],
              body = JObj [(''jsonrpc'', JStr ''2.0''), (''id'', JNum 1),
                           (''method'', JStr ''eth_chainId''), (''params'', JArr [])]\<rparr>"
    using a by (simp add: String_int_examples)
  have req6: "probe_request 8546 = \<lparr>url = ''http://127.0.0.1:8546'', http_method = ''POST'',
              headers = [(''Content-Type'', ''application/json'')],
              body = JObj [(''jsonrpc'', JStr ''2.0''), (''id'', JNum 1),
                           (''method'', JStr ''eth_chainId''), (''params'', JArr [])]\<rparr>"
    using b by (simp add: String_int_examples)
  have first: "anvil_status ?w ?m (Some 8545)
      = (Inr ''Anvil on port 8545 is not responding (removed from tracking)'', [(8546, ?j)],
         [Fetch (probe_request 8545)])"
    and second: "anvil_status ?w [(8546, ?j)] (Some 8545)
      = (Inr ''No Anvil instance running on port 8545'', [(8546, ?j)],
         [Fetch (probe_request 8545)])"
    using a down by (simp_all add: String_int_examples)
  have third: "anvil_status ?w [] (Some 8546)
      = (Inr (''Anvil running on port 8546 (untracked)'' @ [CHR 0x0A] @ ''Chain ID: 0x1''), [],
         [Fetch (probe_request 8546)])"
    using b up by (simp add: String_int_examples)
  have all1: "\<not> Map_has (fst (snd (anvil_status ?w ?m None))) 8545"
    using a down by simp
  have "Map_get (fst (snd (anvil_status ?w ?m None))) 8546 =
          (case probe ?w 8546 of
             Inl e' \<Rightarrow> None
           | Inr r' \<Rightarrow> (case String_js r' of Inl e' \<Rightarrow> None | Inr c \<Rightarrow> Map_get ?m 8546))"
    using c by blast
  then have all2: "Map_get (fst (snd (anvil_status ?w ?m None))) 8546 = Some ?j"
    by (simp add: up String_js_def)
  have all3: "snd (snd (anvil_status ?w ?m None))
      = [Fetch (probe_request 8545), Fetch (probe_request 8546)]"
    using a by simp
  have odd: "probe ?v 8545 = Inr (Some (JObj [(''toString'', JNum 1)]))"
    by (simp add: probe_def jsonRpcCall_def node_odd_result_def get_prop_def truthy_def)
  have "Map_get (fst (snd (anvil_status ?v [(8545, ?i)] None))) 8545 =
          (case probe ?v 8545 of
             Inl e' \<Rightarrow> None
           | Inr r' \<Rightarrow>
               (case String_js r' of Inl e' \<Rightarrow> None | Inr c \<Rightarrow> Map_get [(8545, ?i)] 8545))"
    using anvil_status_self_healing [of ?v 8545 "''0x1''" "[(8545, ?i)]" ?i
        "Error ''ECONNREFUSED''" ?v "Some (JStr ''0x1'')" "''0x1''" None]
    by blast
  then have all4: "Map_get (fst (snd (anvil_status ?v [(8545, ?i)] None))) 8545 = None"
    by (simp add: odd String_js_def)
  show ?thesis
    using first second third all1 all2 all3 all4 by (simp only: req5 req6 simp_thms)
qed

text \<open>
  Claim C7. \<open>anvil_stop\<close> on a tracked port sends SIGTERM to the tracked process id and
  deletes the entry, whether \<open>process.kill\<close> returns or throws; only the answer differs.
  The other entries are kept. On an untracked port it answers that no instance is
  tracked, without error, and leaves the registry unchanged.
\<close>

theorem anvil_stop_removes:
  "p = (case port_arg of None \<Rightarrow> 8545 | Some q \<Rightarrow> q) \<longrightarrow>
   (Map_get m p = Some inst \<longrightarrow>
      anvil_stop w m port_arg =
        ((case process_kill w (pid inst) ''SIGTERM'' of
            None \<Rightarrow> Inr (''Anvil stopped on port '' @ String_int p)
          | Some e \<Rightarrow> Inr (''Error stopping Anvil: '' @ error_text e)),
         Map_delete m p,
         [ProcessKill (pid inst) ''SIGTERM''])
      \<and> \<not> Map_has (Map_delete m p) p
      \<and> (\<forall>q. q \<noteq> p \<longrightarrow> Map_get (Map_delete m p) q = Map_get m q))
   \<and> (Map_get m p = None \<longrightarrow>
      anvil_stop w m port_arg =
        (Inr (''No Anvil instance tracked on port '' @ String_int p), m, []))"
  by (simp add: anvil_stop_def Let_def Map_has_def Map_get_delete split: option.splits)

text \<open>A stop whose signal cannot be delivered, and a stop on an untracked port.\<close>

theorem anvil_stop_removes_witness:
  "anvil_stop
     \<lparr>world_spawn = (\<lambda>a. Inr 4242),
      fetch_json = (\<lambda>r. Inl (Error ''ECONNREFUSED'')),
      process_kill = (\<lambda>p s. Some (Error ''kill() failed: ESRCH''))\<rparr>
     [(8545, \<lparr>port = 8545, pid = 7, forkUrl = None\<rparr>)] None
   = (Inr ''Error stopping Anvil: kill() failed: ESRCH'', [], [ProcessKill 7 ''SIGTERM''])
   \<and> anvil_stop
     \<lparr>world_spawn = (\<lambda>a. Inr 4242),
      fetch_json = (\<lambda>r. Inl (Error ''ECONNREFUSED'')),
      process_kill = (\<lambda>p s. Some (Error ''kill() failed: ESRCH''))\<rparr>
     [(8545, \<lparr>port = 8545, pid = 7, forkUrl = None\<rparr>)] (Some 9000)
   = (Inr ''No Anvil instance tracked on port 9000'',
      [(8545, \<lparr>port = 8545, pid = 7, forkUrl = None\<rparr>)], [])"
  using anvil_stop_removes [of 8545 None
      "[(8545, \<lparr>port = 8545, pid = 7, forkUrl = None\<rparr>)]"
      "\<lparr>port = 8545, pid = 7, forkUrl = None\<rparr>"
      "\<lparr>world_spawn = (\<lambda>a. Inr 4242),
        fetch_json = (\<lambda>r. Inl (Error ''ECONNREFUSED'')),
        process_kill = (\<lambda>p s. Some (Error ''kill() failed: ESRCH''))\<rparr>"]
    anvil_stop_removes [of 9000 "Some 9000"
      "[(8545, \<lparr>port = 8545, pid = 7, forkUrl = None\<rparr>)]"
      "\<lparr>port = 8545, pid = 7, forkUrl = None\<rparr>"
      "\<lparr>world_spawn = (\<lambda>a. Inr 4242),
        fetch_json = (\<lambda>r. Inl (Error ''ECONNREFUSED'')),
        process_kill = (\<lambda>p s. Some (Error ''kill() failed: ESRCH''))\<rparr>"]
  by (simp add: error_text_def String_int_examples)

section \<open>Properties of the RPC Bridge\<close>




section \<open>Encoding of the node-control parameters\<close>

lemma decimal_digit_facts:
  assumes "c \<in> set ''0123456789''"
  shows "\<exists>d. digit_val c = Some d \<and> d < 10" and "\<not> is_js_space c"
    and "c \<noteq> CHR ''x''" and "c \<noteq> CHR ''X''" and "c \<noteq> CHR ''o''" and "c \<noteq> CHR ''O''"
    and "c \<noteq> CHR ''b''" and "c \<noteq> CHR ''B''" and "c \<noteq> CHR ''-''" and "c \<noteq> CHR ''+''"
  using assms by (auto simp: digit_val_def is_js_space_def)

lemma parse_digits_decimal:
  "set s \<subseteq> set ''0123456789'' \<Longrightarrow> \<exists>n. parse_digits 10 s acc = Some n"
proof (induction s arbitrary: acc)
  case Nil
  then show ?case by simp
next
  case (Cons c s)
  then have "c \<in> set ''0123456789''" by simp
  then obtain d where "digit_val c = Some d" "d < 10"
    using decimal_digit_facts(1) by blast
  moreover have "set s \<subseteq> set ''0123456789''" using Cons.prems by simp
  ultimately show ?case using Cons.IH by simp
qed

lemma dropWhile_none: "\<forall>c \<in> set s. \<not> P c \<Longrightarrow> dropWhile P s = s"
  by (cases s) simp_all

lemma trim_decimal: "set s \<subseteq> set ''0123456789'' \<Longrightarrow> trim s = s"
proof -
  assume dec: "set s \<subseteq> set ''0123456789''"
  then have ns: "\<forall>c \<in> set s. \<not> is_js_space c"
    using decimal_digit_facts(2) by blast
  then have "dropWhile is_js_space s = s" by (rule dropWhile_none)
  moreover have "dropWhile is_js_space (rev s) = rev s"
    using ns by (intro dropWhile_none) simp
  ultimately show ?thesis by (simp add: trim_def)
qed

lemma take_not_prefix:
  "set s \<subseteq> set ''0123456789'' \<Longrightarrow> \<not> set p \<subseteq> set ''0123456789'' \<Longrightarrow> take k s \<noteq> p"
  using set_take_subset [of k s] by blast

lemma BigInt_decimal:
  assumes ne: "s \<noteq> []" and dec: "set s \<subseteq> set ''0123456789''"
  shows "\<exists>n. parse_nat 10 s = Some n \<and> BigInt s = Inr (int n)"
proof -
  obtain n where n: "parse_digits 10 s 0 = Some n"
    using parse_digits_decimal [OF dec] by blast
  then have pn: "parse_nat 10 s = Some n" using ne by (simp add: parse_nat_def)
  have t: "trim s = s" using dec by (rule trim_decimal)
  have p2: "take 2 s \<noteq> ''0x''" "take 2 s \<noteq> ''0X''" "take 2 s \<noteq> ''0o''" "take 2 s \<noteq> ''0O''"
    "take 2 s \<noteq> ''0b''" "take 2 s \<noteq> ''0B''"
    by (rule take_not_prefix [OF dec], simp)+
  have p1: "take 1 s \<noteq> ''-''" "take 1 s \<noteq> ''+''"
    by (rule take_not_prefix [OF dec], simp)+
  have "BigInt s = Inr (int n)"
    using ne p1 p2 pn by (simp add: BigInt_def t)
  with pn show ?thesis by simp
qed

lemma params_of_call:
  "map params_of (snd (jsonRpcCall f u mth ps)) = [Some (JArr ps)]"
  by (simp add: jsonRpcCall_def Let_def params_of_def)

lemma snd_case_result:
  "snd (case c of (Inr r, reqs) \<Rightarrow> (f r, reqs) | (Inl e, reqs) \<Rightarrow> (g e, reqs)) = snd c"
  by (cases c; cases "fst c") auto

text \<open>
  Claim C9, as the code has it. \<open>anvil_mine\<close> sends the block count, and the interval
  when one is given, as strings: \<open>0x\<close> followed by the hexadecimal digits of the number,
  which read back in radix 16 as the number. \<open>anvil_setNextBlockTimestamp\<close> and
  \<open>anvil_increaseTime\<close> send the timestamp and the seconds as the JSON numbers they
  are, not as hexadecimal strings. \<open>anvil_setBalance\<close> sends a balance that starts with
  \<open>0x\<close> unchanged, and sends a balance written in decimal digits as \<open>0x\<close> followed by the
  hexadecimal digits of its value.
\<close>

theorem node_control_params:
  "map params_of (snd (anvil_mine fetch context_rpcUrl blocks_arg interval rpcUrl)) =
     [Some (JArr
        (if interval \<noteq> None \<and> interval \<noteq> Some 0 then
           [JStr (''0x'' @ toString_radix 16 (case blocks_arg of None \<Rightarrow> 1 | Some b \<Rightarrow> b)),
            JStr (''0x'' @ toString_radix 16 (the interval))]
         else [JStr (''0x'' @ toString_radix 16 (case blocks_arg of None \<Rightarrow> 1 | Some b \<Rightarrow> b))]))]
   \<and> (0 \<le> n \<longrightarrow> parse_nat 16 (toString_radix 16 n) = Some (nat n))
   \<and> map params_of (snd (anvil_setNextBlockTimestamp fetch context_rpcUrl timestamp rpcUrl)) =
       [Some (JArr [JNum timestamp])]
   \<and> map params_of (snd (anvil_increaseTime fetch context_rpcUrl seconds rpcUrl)) =
       [Some (JArr [JNum seconds])]
   \<and> (take 2 balance = ''0x'' \<longrightarrow>
        map params_of (snd (anvil_setBalance fetch context_rpcUrl address balance rpcUrl)) =
          [Some (JArr [JStr address, JStr balance])])
   \<and> (balance \<noteq> [] \<and> set balance \<subseteq> set ''0123456789'' \<longrightarrow>
        (\<exists>v. parse_nat 10 balance = Some v
           \<and> map params_of (snd (anvil_setBalance fetch context_rpcUrl address balance rpcUrl)) =
               [Some (JArr [JStr address, JStr (''0x'' @ toString_radix 16 (int v))])]))"
proof -
  have mine: "map params_of (snd (anvil_mine fetch context_rpcUrl blocks_arg interval rpcUrl)) =
     [Some (JArr
        (if interval \<noteq> None \<and> interval \<noteq> Some 0 then
           [JStr (''0x'' @ toString_radix 16 (case blocks_arg of None \<Rightarrow> 1 | Some b \<Rightarrow> b)),
            JStr (''0x'' @ toString_radix 16 (the interval))]
         else [JStr (''0x'' @ toString_radix 16 (case blocks_arg of None \<Rightarrow> 1 | Some b \<Rightarrow> b))]))]"
    by (simp add: anvil_mine_def Let_def snd_case_result params_of_call)
  have stamp: "map params_of (snd (anvil_setNextBlockTimestamp fetch context_rpcUrl timestamp rpcUrl)) =
       [Some (JArr [JNum timestamp])]"
    by (simp add: anvil_setNextBlockTimestamp_def Let_def snd_case_result params_of_call)
  have incr: "map params_of (snd (anvil_increaseTime fetch context_rpcUrl seconds rpcUrl)) =
       [Some (JArr [JNum seconds])]"
    by (simp add: anvil_increaseTime_def Let_def snd_case_result params_of_call)
  have bal: "map params_of (snd (anvil_setBalance fetch context_rpcUrl address balance rpcUrl)) =
          [Some (JArr [JStr address, JStr h])]"
    if "(if take 2 balance = ''0x'' then Inr balance
         else (case BigInt balance of Inl e \<Rightarrow> Inl e
               | Inr n \<Rightarrow> Inr (''0x'' @ toString_radix 16 n))) = Inr h" for h
    using that
    by (simp add: anvil_setBalance_def Let_def snd_case_result params_of_call del: if_split
        cong: if_cong)
  have prefixed: "map params_of (snd (anvil_setBalance fetch context_rpcUrl address balance rpcUrl)) =
          [Some (JArr [JStr address, JStr balance])]" if "take 2 balance = ''0x''"
    using that by (intro bal) simp
  have decimal: "\<exists>v. parse_nat 10 balance = Some v
           \<and> map params_of (snd (anvil_setBalance fetch context_rpcUrl address balance rpcUrl)) =
               [Some (JArr [JStr address, JStr (''0x'' @ toString_radix 16 (int v))])]"
    if ne: "balance \<noteq> []" and dec: "set balance \<subseteq> set ''0123456789''"
  proof -
    obtain v where v: "parse_nat 10 balance = Some v" "BigInt balance = Inr (int v)"
      using BigInt_decimal [OF ne dec] by blast
    have "take 2 balance \<noteq> ''0x''"
      by (rule take_not_prefix [OF dec], simp)
    then have "map params_of (snd (anvil_setBalance fetch context_rpcUrl address balance rpcUrl)) =
               [Some (JArr [JStr address, JStr (''0x'' @ toString_radix 16 (int v))])]"
      using v(2) by (intro bal) simp
    with v(1) show ?thesis by simp
  qed
  show ?thesis
    by (intro conjI impI; (elim conjE)?;
        (rule mine stamp incr | erule prefixed | erule (1) decimal | erule hex_roundtrip))
qed

text \<open>Mining 255 blocks at interval 16; a balance given in hexadecimal and in decimal.\<close>

theorem node_control_params_witness:
  "map params_of (snd (anvil_mine node_ok None (Some 255) (Some 16) None)) =
     [Some (JArr [JStr ''0xff'', JStr ''0x10''])]
   \<and> parse_nat 16 ''ff'' = Some 255
   \<and> map params_of (snd (anvil_setBalance node_ok None ''0x00000000000000000000000000000000000000aa''
        ''0x3e8'' None)) =
     [Some (JArr [JStr ''0x00000000000000000000000000000000000000aa'', JStr ''0x3e8''])]
   \<and> map params_of (snd (anvil_setBalance node_ok None ''0x00000000000000000000000000000000000000aa''
        ''1000'' None)) =
     [Some (JArr [JStr ''0x00000000000000000000000000000000000000aa'', JStr ''0x3e8''])]"
proof -
  have hex: "toString_radix 16 255 = ''ff''" "toString_radix 16 16 = ''10''"
    "toString_radix 16 1000 = ''3e8''"
    by (simp_all add: toString_radix_def nat_to_radix.simps digit_char_def)
  have dec: "parse_nat 10 ''1000'' = Some 1000"
    by (simp add: parse_nat_def digit_val_def)
  show ?thesis
    using node_control_params [of node_ok None "Some 255" "Some 16" None 255 0 0
        "''0x3e8''" "''0x00000000000000000000000000000000000000aa''"]
      node_control_params [of node_ok None "Some 255" "Some 16" None 255 0 0
        "''1000''" "''0x00000000000000000000000000000000000000aa''"]
    by (simp add: hex dec)
qed

text \<open>
  Claim C9 as stated fails for the timestamp and for the time delta: at the timestamp
  1700000000 the parameter list holds the number itself and not a \<open>0x\<close> string.
\<close>

theorem timestamp_not_hex_counterexample:
  "map params_of (snd (anvil_setNextBlockTimestamp node_ok None 1700000000 None)) =
     [Some (JArr [JNum 1700000000])]
   \<and> map params_of (snd (anvil_setNextBlockTimestamp node_ok None 1700000000 None)) \<noteq>
     [Some (JArr [JStr (''0x'' @ toString_radix 16 1700000000)])]
   \<and> map params_of (snd (anvil_increaseTime node_ok None 3600 None)) = [Some (JArr [JNum 3600])]"
  by (simp add: anvil_setNextBlockTimestamp_def anvil_increaseTime_def jsonRpcCall_def
      params_of_def node_ok_def get_prop_def truthy_def)

section \<open>Shell use of the REPL handlers and the other spawns\<close>










end
